theory Spec2Isabelle
  imports Main "HOL-Library.Product_Lexorder" "HOL-Library.Multiset"
begin

section \<open>Data model of \<open>yledl/downloader.py\<close>\<close>

text \<open>
  The downloader works on plain data handed to it by its collaborators. A stream handle
  (a backend object in the source) is used through \<open>name\<close>, \<open>is_valid()\<close> and
  \<open>error_message\<close>; a flavor through \<open>height\<close>, \<open>width\<close>, \<open>bitrate\<close> and \<open>streams\<close>;
  the filters through \<open>maxheight\<close>, \<open>maxbitrate\<close>, \<open>enabled_backends\<close> and \<open>latest_only\<close>.
  Attributes that may be \<open>None\<close> in Python are options here, Python's unbounded
  integers are \<open>int\<close>.
\<close>

record stream =
  name :: string
  is_valid :: bool
  error_message :: "string option"

record flavor =
  media_type :: string
  height :: "int option"
  width :: "int option"
  bitrate :: "int option"
  streams :: "stream list"

record stream_filters =
  maxheight :: "int option"
  maxbitrate :: "int option"
  enabled_backends :: "string list"
  latest_only :: bool

text \<open>
  Modelled from the spec: \<open>FailedFlavor\<close> of \<open>yledl/streamflavor.py\<close>, which is not part of
  the sources at hand. The spec describes it as a failure marker carrying a human-readable
  diagnostic, whose candidates are present but all invalid: a flavor without dimensions
  whose only handle is invalid and carries the message. The name of that handle is not
  used by any function below.
\<close>

definition FailedFlavor :: "string option \<Rightarrow> flavor" where
  "FailedFlavor msg =
     \<lparr>media_type = ''unknown'', height = None, width = None, bitrate = None,
      streams = [\<lparr>name = ''invalid'', is_valid = False, error_message = msg\<rparr>]\<rparr>"

section \<open>Python idioms\<close>

text \<open>\<open>x or 0\<close> for an optional integer: \<open>None\<close> and \<open>0\<close> both give \<open>0\<close>.\<close>

fun or0 :: "int option \<Rightarrow> int" where
  "or0 None = 0"
| "or0 (Some v) = v"

text \<open>
  \<open>sorted(xs, key=k, reverse=r)\<close>: a stable sort by key. With \<open>reverse\<close> the order is
  descending and elements with equal keys still keep their original order; CPython does
  this by reversing the list, sorting it stably and reversing the result.
\<close>

definition py_sorted :: "('a \<Rightarrow> 'k::linorder) \<Rightarrow> bool \<Rightarrow> 'a list \<Rightarrow> 'a list" where
  "py_sorted key reverse xs =
     (if reverse then rev (sort_key key (rev xs)) else sort_key key xs)"

text \<open>\<open>sep.join(xs)\<close> on strings.\<close>

fun join :: "string \<Rightarrow> string list \<Rightarrow> string" where
  "join sep [] = []"
| "join sep [x] = x"
| "join sep (x # y # ys) = x @ sep @ join sep (y # ys)"

section \<open>Flavor selection\<close>

subsection \<open>\<open>apply_backend_filter\<close> and \<open>backend_not_enabled_flavor\<close>\<close>

text \<open>
  The inner function \<open>filter_streams_by_backend\<close>: for every enabled backend, in the
  order of \<open>enabled_backends\<close>, the handles of the flavor with that name; the copy of the
  flavor gets these as its streams.
\<close>

definition filter_streams_by_backend :: "stream_filters \<Rightarrow> flavor \<Rightarrow> flavor" where
  "filter_streams_by_backend filters fl =
     (let sorted_streams =
            concat (map (\<lambda>be. filter (\<lambda>downloader. name downloader = be) (streams fl))
                        (enabled_backends filters))
      in fl\<lparr>streams := sorted_streams\<rparr>)"

text \<open>
  \<open>backend_not_enabled_flavor\<close> collects the names of the valid handles in a Python set
  and joins the set with commas. The order in which a set of strings is iterated is an
  implementation detail of the interpreter (it depends on the hashes and on the insertion
  history), so it is the parameter \<open>set_iter\<close>: it maps the sequence of inserted names to
  the sequence in which the resulting set is iterated.
\<close>

definition backend_not_enabled_flavor :: "(string list \<Rightarrow> string list) \<Rightarrow> flavor list \<Rightarrow> flavor" where
  "backend_not_enabled_flavor set_iter flavors =
     (let supported_backends =
            concat (map (\<lambda>fl. map name (filter is_valid (streams fl))) flavors);
          error_messages =
            concat (map (\<lambda>fl. map error_message (filter (\<lambda>s. \<not> is_valid s) (streams fl))) flavors);
          msg = (if set supported_backends \<noteq> {} then
                   Some (''Required backend not enabled. Try: --backend '' @
                         join '','' (set_iter supported_backends))
                 else if error_messages \<noteq> [] then hd error_messages
                 else Some ''Stream not found'')
      in FailedFlavor msg)"

definition apply_backend_filter ::
  "(string list \<Rightarrow> string list) \<Rightarrow> flavor list \<Rightarrow> stream_filters \<Rightarrow> flavor list" where
  "apply_backend_filter set_iter flavors filters =
     (if flavors = [] then []
      else
        let filtered = map (filter_streams_by_backend filters) flavors;
            filtered = filter (\<lambda>fl. streams fl \<noteq> []) filtered
        in if filtered \<noteq> [] then filtered
           else if flavors \<noteq> [] then [backend_not_enabled_flavor set_iter flavors]
           else [])"

subsection \<open>\<open>apply_resolution_filters\<close>\<close>

definition sort_max_bitrate :: "flavor \<Rightarrow> int" where
  "sort_max_bitrate x = or0 (bitrate x)"

definition sort_max_resolution_min_bitrate :: "flavor \<Rightarrow> int \<times> int" where
  "sort_max_resolution_min_bitrate x = (or0 (height x), - or0 (bitrate x))"

definition sort_max_resolution_max_bitrate :: "flavor \<Rightarrow> int \<times> int" where
  "sort_max_resolution_max_bitrate x = (or0 (height x), or0 (bitrate x))"

text \<open>The condition of the list comprehension that computes \<open>filtered\<close>.\<close>

definition within_limits :: "stream_filters \<Rightarrow> flavor \<Rightarrow> bool" where
  "within_limits filters fl \<longleftrightarrow>
     (case maxbitrate filters of None \<Rightarrow> True | Some mb \<Rightarrow> or0 (bitrate fl) \<le> mb) \<and>
     (case maxheight filters of None \<Rightarrow> True | Some mh \<Rightarrow> or0 (height fl) \<le> mh)"

definition apply_resolution_filters :: "flavor list \<Rightarrow> stream_filters \<Rightarrow> flavor list" where
  "apply_resolution_filters flavors filters =
     (let filtered = filter (within_limits filters) flavors;
          acceptable_flavors = (if filtered \<noteq> [] then filtered else flavors);
          reverse = (if filtered \<noteq> [] then False
                     else maxheight filters \<noteq> None \<or> maxbitrate filters \<noteq> None)
      in if maxheight filters \<noteq> None \<and> maxbitrate filters \<noteq> None then
           py_sorted sort_max_resolution_max_bitrate reverse acceptable_flavors
         else if maxheight filters \<noteq> None then
           py_sorted sort_max_resolution_min_bitrate reverse acceptable_flavors
         else
           py_sorted sort_max_bitrate reverse acceptable_flavors)"

subsection \<open>\<open>select_flavor\<close> and \<open>select_streams\<close>\<close>

text \<open>
  The debug records of \<open>select_flavor\<close> (the available flavors, the limits and the selected
  flavor) have no influence on the result and are left out: they print objects whose
  classes are not among the sources. The log of a world therefore holds the lines of the
  orchestration functions only.
  \<open>filtered[-1]\<close> is guarded by the non-emptiness test, so \<open>last\<close> is only taken of a
  non-empty list.
\<close>

definition select_flavor ::
  "(string list \<Rightarrow> string list) \<Rightarrow> flavor list \<Rightarrow> stream_filters \<Rightarrow> flavor option" where
  "select_flavor set_iter flavors filters =
     (if flavors = [] then None
      else
        let filtered = apply_backend_filter set_iter flavors filters;
            filtered = apply_resolution_filters filtered filters
        in if filtered \<noteq> [] then Some (last filtered) else None)"

text \<open>
  \<open>select_streams\<close>: a flavor object is true in Python, so \<open>if flavor\<close> tests for \<open>None\<close>;
  \<open>flavor.streams or []\<close> is the list of streams itself.
\<close>

definition select_streams ::
  "(string list \<Rightarrow> string list) \<Rightarrow> flavor list \<Rightarrow> stream_filters \<Rightarrow> stream list option" where
  "select_streams set_iter flavors filters =
     (case select_flavor set_iter flavors filters of
        Some fl \<Rightarrow> Some (streams fl)
      | None \<Rightarrow> None)"

text \<open>
  Vocabulary of the properties: a flavor is backend-enabled when one of its handles has
  the name of an enabled backend.
\<close>

definition backend_enabled :: "stream_filters \<Rightarrow> flavor \<Rightarrow> bool" where
  "backend_enabled filters fl \<longleftrightarrow>
     (\<exists>s \<in> set (streams fl). name s \<in> set (enabled_backends filters))"

section \<open>Result codes, log and file system\<close>

text \<open>
  Modelled from the spec: the result codes of \<open>yledl/exitcodes.py\<close>, which is not part of
  the sources at hand. The spec lists SUCCESS, INCOMPLETE, FAILED and
  SUBPROCESS_EXECUTE_FAILED; the downloader only compares them for equality. The final
  mapping \<open>to_external_rd_code\<close> of the same module is a parameter of the model.
\<close>

datatype rd = RD_SUCCESS | RD_INCOMPLETE | RD_FAILED | RD_SUBPROCESS_EXECUTE_FAILED

datatype level = DEBUG | INFO | WARNING | ERROR

text \<open>
  The part of the outside world the downloader reads and changes: the paths that are
  regular files, the other existing paths (directories and the like), the paths whose
  removal the operating system refuses, and the lines written to the logger by the
  functions that take a world (the debug records of the flavor selection are not among
  them).
\<close>

record world =
  files :: "string set"
  others :: "string set"
  protected :: "string set"
  logged :: "(level \<times> string) list"

definition logger :: "level \<Rightarrow> string \<Rightarrow> world \<Rightarrow> world" where
  "logger lvl msg w = w\<lparr>logged := logged w @ [(lvl, msg)]\<rparr>"

definition os_path_isfile :: "string \<Rightarrow> world \<Rightarrow> bool" where
  "os_path_isfile p w \<longleftrightarrow> p \<in> files w"

definition os_path_exists :: "string \<Rightarrow> world \<Rightarrow> bool" where
  "os_path_exists p w \<longleftrightarrow> p \<in> files w \<or> p \<in> others w"

text \<open>\<open>os.remove\<close>: \<open>None\<close> stands for a raised \<open>OSError\<close>.\<close>

definition os_remove :: "string \<Rightarrow> world \<Rightarrow> world option" where
  "os_remove p w =
     (if p \<in> files w \<and> p \<notin> protected w then Some (w\<lparr>files := files w - {p}\<rparr>) else None)"

text \<open>Truth value of an optional string and of an optional number in a condition.\<close>

fun truthy :: "string option \<Rightarrow> bool" where
  "truthy None = False"
| "truthy (Some s) = (s \<noteq> [])"

fun truthy_int :: "int option \<Rightarrow> bool" where
  "truthy_int None = False"
| "truthy_int (Some v) = (v \<noteq> 0)"

text \<open>\<open>str(x)\<close> inside an f-string, for an optional string.\<close>

fun py_str :: "string option \<Rightarrow> string" where
  "py_str None = ''None''"
| "py_str (Some s) = s"

section \<open>Clips, IO settings and collaborators\<close>

record clip =
  webpage :: string
  title :: "string option"
  region :: "string option"
  flavors :: "flavor list"

record download_limits =
  start_position :: "int option"
  duration :: "int option"

record io_context =
  outputfilename :: "string option"
  overwrite :: bool
  download_limits :: download_limits
  postprocess_command :: "string option"
  preferred_format :: "string option"

text \<open>
  The objects the downloader calls but does not define: the extractor with its title
  formatter (\<open>self.extractor\<close>), the geolocation service (\<open>self.geolocation\<close>), the methods
  of a backend object, the output file name generator, the subprocess runner, the exit
  code mapping and the iteration order of Python sets. Operations that read or change
  the outside world take the world and return the new one. In \<open>get_playlist\<close> the optional
  argument is \<open>None\<close> where the call leaves \<open>latest_only\<close> out. The collaborators are
  taken to return: an exception raised inside one of them ends the whole run and is not
  part of the model.
\<close>

record collaborators =
  get_playlist :: "string \<Rightarrow> bool option \<Rightarrow> world \<Rightarrow> string list \<times> world"
  extract_clip :: "string \<Rightarrow> world \<Rightarrow> clip \<times> world"
  is_constant_pattern :: bool
  template :: string
  located_in_finland :: "string \<Rightarrow> world \<Rightarrow> bool"
  to_external_rd_code :: "rd \<Rightarrow> rd"
  set_iteration :: "string list \<Rightarrow> string list"
  warn_on_unsupported_feature :: "stream \<Rightarrow> io_context \<Rightarrow> world \<Rightarrow> world"
  file_extension :: "stream \<Rightarrow> string option \<Rightarrow> string"
  generator_filename :: "string option \<Rightarrow> string \<Rightarrow> io_context \<Rightarrow> world \<Rightarrow> string option"
  full_stream_already_downloaded :: "stream \<Rightarrow> string \<Rightarrow> clip \<Rightarrow> io_context \<Rightarrow> world \<Rightarrow> bool"
  save_stream :: "stream \<Rightarrow> string \<Rightarrow> clip \<Rightarrow> io_context \<Rightarrow> world \<Rightarrow> rd \<times> world"
  pipe_stream :: "stream \<Rightarrow> io_context \<Rightarrow> world \<Rightarrow> rd \<times> world"
  subprocess_execute :: "string list list \<Rightarrow> world \<Rightarrow> world"

text \<open>
  The calls the orchestration makes to its collaborators, in the order in which it makes
  them: resolving a clip, invoking the transfer function on a handle (with what it
  returned) and asking for the removal of a partial file.
\<close>

datatype call =
    Extract_clip string
  | Streamfunc clip stream "rd \<times> string option"
  | Remove_retry_file "string option"

type_synonym streamfunc = "clip \<Rightarrow> stream \<Rightarrow> world \<Rightarrow> (rd \<times> string option) \<times> world"

section \<open>Retry orchestration\<close>

subsection \<open>\<open>remove_retry_file\<close>\<close>

definition remove_retry_file :: "string option \<Rightarrow> world \<Rightarrow> world" where
  "remove_retry_file filename w =
     (case filename of
        None \<Rightarrow> w
      | Some f \<Rightarrow>
          if f \<noteq> [] \<and> os_path_isfile f w then
            let w1 = logger DEBUG ''Removing the partially downloaded file'' w
            in (case os_remove f w1 of
                  Some w2 \<Rightarrow> w2
                | None \<Rightarrow> logger WARNING ''Failed to remove a partial output file'' w1)
          else w)"

subsection \<open>\<open>try_all_streams\<close>\<close>

text \<open>
  The loop over the streams, with the loop variables \<open>latest_result\<close> and \<open>output_file\<close>.
  It returns the result, the calls made from here on and the world.
\<close>

fun try_all_loop ::
  "streamfunc \<Rightarrow> (rd \<Rightarrow> bool) \<Rightarrow> clip \<Rightarrow> stream list \<Rightarrow> rd \<Rightarrow> string option \<Rightarrow> world \<Rightarrow>
     rd \<times> call list \<times> world" where
  "try_all_loop streamfunc needs_retry clip [] latest_result output_file w =
     (latest_result, [], w)"
| "try_all_loop streamfunc needs_retry clip (stream # rest) latest_result output_file w =
     (if is_valid stream then
        let (removal, w1) =
              (if truthy output_file
               then ([Remove_retry_file output_file], remove_retry_file output_file w)
               else ([], w));
            w2 = logger DEBUG (''Now trying downloader '' @ name stream) w1
        in (case streamfunc clip stream w2 of
              ((latest_result, output_file), w3) \<Rightarrow>
                let attempt = removal @ [Streamfunc clip stream (latest_result, output_file)]
                in if needs_retry latest_result then
                     (case try_all_loop streamfunc needs_retry clip rest latest_result output_file w3 of
                        (res, later, w4) \<Rightarrow> (res, attempt @ later, w4))
                   else (latest_result, attempt, w3))
      else try_all_loop streamfunc needs_retry clip rest latest_result output_file w)"

definition try_all_streams ::
  "streamfunc \<Rightarrow> clip \<Rightarrow> stream list \<Rightarrow> (rd \<Rightarrow> bool) \<Rightarrow> world \<Rightarrow> rd \<times> call list \<times> world" where
  "try_all_streams streamfunc clip streams' needs_retry w =
     try_all_loop streamfunc needs_retry clip streams' RD_FAILED None w"

section \<open>Playlist processing\<close>

subsection \<open>\<open>print_geo_warning\<close>\<close>

definition print_geo_warning :: "collaborators \<Rightarrow> clip \<Rightarrow> world \<Rightarrow> world" where
  "print_geo_warning co clip w =
     (if region clip \<in> set [Some ''Finland'', None] \<and>
         \<not> located_in_finland co (webpage clip) w
      then logger ERROR (''This clip is only available in Finland '' @
                         ''and according to Yle you are located abroad'') w
      else w)"

subsection \<open>\<open>process\<close>\<close>

text \<open>
  The body of the loop of \<open>process\<close> for one playlist entry: it takes the current
  \<open>overall_status\<close> and returns the new one, with the calls made and the new world.
  \<open>not streams\<close> holds for \<open>None\<close> and for the empty list.
\<close>

definition process_clip ::
  "collaborators \<Rightarrow> streamfunc \<Rightarrow> (rd \<Rightarrow> bool) \<Rightarrow> stream_filters \<Rightarrow> string \<Rightarrow> rd \<Rightarrow> world \<Rightarrow>
     rd \<times> call list \<times> world" where
  "process_clip co streamfunc needs_retry filters clip_url overall_status w =
     (case extract_clip co clip_url w of
        (clip, w1) \<Rightarrow>
          let no_stream = (RD_FAILED, [Extract_clip clip_url], logger ERROR ''No stream found'' w1)
          in (case select_streams (set_iteration co) (flavors clip) filters of
                None \<Rightarrow> no_stream
              | Some [] \<Rightarrow> no_stream
              | Some (first # remaining) \<Rightarrow>
                  if list_all (\<lambda>stream. \<not> is_valid stream) (first # remaining) then
                    (RD_FAILED, [Extract_clip clip_url],
                     print_geo_warning co clip
                       (logger ERROR (''Unsupported stream: '' @ py_str (error_message first)) w1))
                  else
                    (case try_all_streams streamfunc clip (first # remaining) needs_retry w1 of
                       (res, calls, w2) \<Rightarrow>
                         (if res \<noteq> RD_SUCCESS \<and> overall_status \<noteq> RD_FAILED then res
                          else overall_status,
                          Extract_clip clip_url # calls, w2))))"

fun process_loop ::
  "collaborators \<Rightarrow> streamfunc \<Rightarrow> (rd \<Rightarrow> bool) \<Rightarrow> stream_filters \<Rightarrow> string list \<Rightarrow> rd \<Rightarrow> world \<Rightarrow>
     rd \<times> call list \<times> world" where
  "process_loop co streamfunc needs_retry filters [] overall_status w = (overall_status, [], w)"
| "process_loop co streamfunc needs_retry filters (clip_url # rest) overall_status w =
     (case process_clip co streamfunc needs_retry filters clip_url overall_status w of
        (overall_status, calls, w1) \<Rightarrow>
          (case process_loop co streamfunc needs_retry filters rest overall_status w1 of
             (res, later, w2) \<Rightarrow> (res, calls @ later, w2)))"

definition process ::
  "collaborators \<Rightarrow> string list \<Rightarrow> streamfunc \<Rightarrow> (rd \<Rightarrow> bool) \<Rightarrow> stream_filters \<Rightarrow> world \<Rightarrow>
     rd \<times> call list \<times> world" where
  "process co playlist streamfunc needs_retry filters w =
     (if length playlist = 0 then (RD_SUCCESS, [], logger ERROR ''No streams found'' w)
      else
        (case process_loop co streamfunc needs_retry filters playlist RD_SUCCESS w of
           (overall_status, calls, w1) \<Rightarrow> (to_external_rd_code co overall_status, calls, w1)))"

section \<open>Saving and piping\<close>

subsection \<open>Helpers of \<open>download_clips\<close>\<close>

definition log_output_file :: "string option \<Rightarrow> bool \<Rightarrow> world \<Rightarrow> world" where
  "log_output_file outputfile done w =
     (case outputfile of
        None \<Rightarrow> w
      | Some f \<Rightarrow>
          if f \<noteq> [] \<and> f \<noteq> ''-'' then
            (if done then logger INFO (''Stream saved to '' @ f) w
             else logger INFO (''Output file: '' @ f) w)
          else w)"

definition postprocess :: "collaborators \<Rightarrow> string option \<Rightarrow> string \<Rightarrow> string list \<Rightarrow> world \<Rightarrow> world" where
  "postprocess co command videofile subtitlefiles w =
     (case command of
        None \<Rightarrow> w
      | Some c \<Rightarrow>
          if c \<noteq> [] then subprocess_execute co [[c, videofile] @ subtitlefiles] w else w)"

text \<open>
  In \<open>should_skip_downloading\<close> the expression \<open>limits.start_position or 0 > 0 or
  limits.duration\<close> is read by Python as \<open>limits.start_position or (0 > 0) or
  limits.duration\<close>; only its truth value is used.
\<close>

definition should_skip_downloading ::
  "collaborators \<Rightarrow> string \<Rightarrow> stream \<Rightarrow> clip \<Rightarrow> io_context \<Rightarrow> world \<Rightarrow> bool" where
  "should_skip_downloading co outputfile downloader clip io w =
     (let limits = download_limits io;
          slicing_active = (truthy_int (start_position limits) \<or> (0::int) > 0 \<or>
                            truthy_int (duration limits))
      in (\<not> overwrite io \<and> os_path_exists outputfile w) \<or>
         (\<not> slicing_active \<and> full_stream_already_downloaded co downloader outputfile clip io w))"

definition generate_output_name ::
  "collaborators \<Rightarrow> string option \<Rightarrow> stream \<Rightarrow> io_context \<Rightarrow> world \<Rightarrow> string option" where
  "generate_output_name co title' downloader io w =
     (let extension = file_extension co downloader (preferred_format io)
      in generator_filename co title' extension io w)"

text \<open>
  The two transfer functions. A handle is an object instance, which Python counts as
  true, so the guard \<open>if not downloader\<close> of the source never fires and has no branch here.
\<close>

definition download :: "collaborators \<Rightarrow> io_context \<Rightarrow> streamfunc" where
  "download co io clip downloader w =
     (let w1 = warn_on_unsupported_feature co downloader io w
      in (case generate_output_name co (title clip) downloader io w1 of
            None \<Rightarrow> ((RD_FAILED, None), w1)
          | Some outputfile \<Rightarrow>
              if outputfile = [] then ((RD_FAILED, None), w1)
              else if should_skip_downloading co outputfile downloader clip io w1 then
                ((RD_SUCCESS, Some outputfile),
                 logger INFO (outputfile @ '' has already been downloaded.'') w1)
              else
                let w2 = log_output_file (Some outputfile) False w1
                in (case save_stream co downloader outputfile clip io w2 of
                      (dl_result, w3) \<Rightarrow>
                        if dl_result = RD_SUCCESS then
                          ((dl_result, Some outputfile),
                           postprocess co (postprocess_command io) outputfile []
                             (log_output_file (Some outputfile) True w3))
                        else ((dl_result, Some outputfile), w3))))"

definition needs_retry_download :: "rd \<Rightarrow> bool" where
  "needs_retry_download res \<longleftrightarrow> res \<notin> set [RD_SUCCESS, RD_INCOMPLETE]"

definition pipe_clip :: "collaborators \<Rightarrow> io_context \<Rightarrow> streamfunc" where
  "pipe_clip co io clip downloader w =
     (let w1 = warn_on_unsupported_feature co downloader io w
      in (case pipe_stream co downloader io w1 of (res, w2) \<Rightarrow> ((res, None), w2)))"

definition needs_retry_pipe :: "rd \<Rightarrow> bool" where
  "needs_retry_pipe res \<longleftrightarrow> res = RD_SUBPROCESS_EXECUTE_FAILED"

subsection \<open>\<open>download_clips\<close> and \<open>pipe\<close>\<close>

definition download_clips ::
  "collaborators \<Rightarrow> string \<Rightarrow> io_context \<Rightarrow> stream_filters \<Rightarrow> world \<Rightarrow> rd \<times> call list \<times> world" where
  "download_clips co base_url io filters w =
     (case get_playlist co base_url (Some (latest_only filters)) w of
        (playlist, w1) \<Rightarrow>
          if length playlist > 1 \<and> outputfilename io \<noteq> None then
            (RD_FAILED, [],
             logger ERROR (''The source is a playlist with multiple clips, '' @
                           ''but only one output file specified'') w1)
          else if length playlist > 1 \<and> is_constant_pattern co then
            (RD_FAILED, [],
             logger ERROR (''The source is a playlist with multiple clips, '' @
                           ''but --output-template is a literal: '' @ template co) w1)
          else process co playlist (download co io) needs_retry_download filters w1)"

definition pipe ::
  "collaborators \<Rightarrow> string \<Rightarrow> io_context \<Rightarrow> stream_filters \<Rightarrow> world \<Rightarrow> rd \<times> call list \<times> world" where
  "pipe co base_url io filters w =
     (case get_playlist co base_url None w of
        (playlist, w1) \<Rightarrow>
          let playlist = take 1 playlist
          in process co playlist (pipe_clip co io) needs_retry_pipe filters w1)"

section \<open>Vocabulary of the properties\<close>

text \<open>All handles of a list of flavors, in order.\<close>

definition handles :: "flavor list \<Rightarrow> stream list" where
  "handles flavors' = concat (map streams flavors')"

text \<open>The transfer attempts among the calls: the handle and what the transfer returned.\<close>

fun attempts :: "call list \<Rightarrow> (stream \<times> rd \<times> string option) list" where
  "attempts [] = []"
| "attempts (Streamfunc c s r # calls) = (s, r) # attempts calls"
| "attempts (Extract_clip u # calls) = attempts calls"
| "attempts (Remove_retry_file f # calls) = attempts calls"

text \<open>
  The calls that belong to the attempts on one clip: transfers of that clip and removals
  of partial files.
\<close>

fun item_call :: "clip \<Rightarrow> call \<Rightarrow> bool" where
  "item_call clip (Extract_clip u) = False"
| "item_call clip (Streamfunc c s r) = (c = clip)"
| "item_call clip (Remove_retry_file f) = True"

text \<open>
  The order of transfers and removals within one item: the calls start with a transfer
  and end with one, and between two transfers there is one request to remove the file
  the earlier transfer reported when it reported one, and nothing when it reported none.
\<close>

fun cleanup_ordered :: "call list \<Rightarrow> bool" where
  "cleanup_ordered [] = True"
| "cleanup_ordered [Streamfunc c s r] = True"
| "cleanup_ordered (Streamfunc c s (res, out) # Remove_retry_file f # Streamfunc c' s' r' # calls) =
     (truthy out \<and> f = out \<and> cleanup_ordered (Streamfunc c' s' r' # calls))"
| "cleanup_ordered (Streamfunc c s (res, out) # Streamfunc c' s' r' # calls) =
     (\<not> truthy out \<and> cleanup_ordered (Streamfunc c' s' r' # calls))"
| "cleanup_ordered calls = False"

text \<open>
  One transfer attempt: the handle, the world in which the transfer function was invoked,
  what it returned there (result code and reported file) and the world it left behind.
\<close>

datatype attempt =
  Attempt (candidate: stream) (world_before: world) (returned: "rd \<times> string option")
    (world_after: world)

text \<open>
  The attempts made on a list of valid candidates, from a world \<open>w\<close> and the file
  \<open>previous\<close> reported by the attempt before (none at the start). There is an attempt on
  the first candidate unless there is no candidate. It starts in the world in which
  \<open>previous\<close>, when there is one, has been handed to \<open>remove_retry_file\<close> and the debug
  line has been written, and it records what the transfer function returns in that world.
  After a retryable result the attempts go on with the next candidate, from the world
  the transfer left and the file it reported; after any other result there is no further
  attempt.
\<close>

fun attempt_run ::
  "streamfunc \<Rightarrow> (rd \<Rightarrow> bool) \<Rightarrow> clip \<Rightarrow> stream list \<Rightarrow> string option \<Rightarrow> world \<Rightarrow>
     attempt list \<Rightarrow> bool" where
  "attempt_run sf nr clip [] previous w run = (run = [])"
| "attempt_run sf nr clip (s # later) previous w [] = False"
| "attempt_run sf nr clip (s # later) previous w (Attempt s' start (r, out) left # run) =
     (s' = s \<and>
      start = logger DEBUG (''Now trying downloader '' @ name s)
                (if truthy previous then remove_retry_file previous w else w) \<and>
      sf clip s start = ((r, out), left) \<and>
      (if nr r then attempt_run sf nr clip later out left run else run = []))"

text \<open>
  The calls that such attempts amount to: before every attempt but the first the removal
  of the file its predecessor reported, if it reported one, then the transfer.
\<close>

fun run_calls :: "clip \<Rightarrow> string option \<Rightarrow> attempt list \<Rightarrow> call list" where
  "run_calls clip previous [] = []"
| "run_calls clip previous (Attempt s start (r, out) left # run) =
     (if truthy previous then [Remove_retry_file previous] else []) @
     Streamfunc clip s (r, out) # run_calls clip out run"



section \<open>Example data\<close>

text \<open>
  The flavors of \<open>successful_clip\<close> in \<open>tests/test_downloader.py\<close>, in the order of the
  test (intentionally unsorted), each with one valid handle of the backend \<open>ffmpeg\<close>, and
  filters that enable that backend.
\<close>

definition mock_stream :: stream where
  "mock_stream = \<lparr>name = ''ffmpeg'', is_valid = True, error_message = None\<rparr>"

definition video :: "int \<Rightarrow> int \<Rightarrow> int \<Rightarrow> flavor" where
  "video h w b = \<lparr>media_type = ''video'', height = Some h, width = Some w, bitrate = Some b,
                 streams = [mock_stream]\<rparr>"

definition successful_clip_flavors :: "flavor list" where
  "successful_clip_flavors =
     [video 1080 1920 2808, video 360 640 880, video 720 1280 1412, video 720 1280 1872]"

definition StreamFilters :: "int option \<Rightarrow> int option \<Rightarrow> stream_filters" where
  "StreamFilters mh mb =
     \<lparr>maxheight = mh, maxbitrate = mb, enabled_backends = [''ffmpeg''], latest_only = False\<rparr>"

text \<open>Flavor lists that the backend filter drops completely.\<close>

definition rtmp_only :: "flavor list" where
  "rtmp_only =
     [\<lparr>media_type = ''video'', height = Some 720, width = Some 1280, bitrate = Some 1412,
       streams = [\<lparr>name = ''rtmpdump'', is_valid = True, error_message = None\<rparr>]\<rparr>]"

definition geo_blocked :: "flavor list" where
  "geo_blocked = [FailedFlavor (Some ''Not available outside Finland'')]"

definition streamless :: "flavor list" where
  "streamless =
     [\<lparr>media_type = ''audio'', height = None, width = None, bitrate = Some 128, streams = []\<rparr>]"

text \<open>A world without files, handles, a clip and a transfer that only succeeds with \<open>ffmpeg\<close>.\<close>

definition empty_world :: world where
  "empty_world = \<lparr>files = {}, others = {}, protected = {}, logged = []\<rparr>"

definition backend :: "string \<Rightarrow> stream" where
  "backend n = \<lparr>name = n, is_valid = True, error_message = None\<rparr>"

definition invalid_stream :: "string \<Rightarrow> stream" where
  "invalid_stream msg = \<lparr>name = ''invalid'', is_valid = False, error_message = Some msg\<rparr>"

definition test_clip :: "string \<Rightarrow> flavor list \<Rightarrow> clip" where
  "test_clip u fls =
     \<lparr>webpage = u, title = Some ''Test clip'', region = Some ''Finland'', flavors = fls\<rparr>"

definition flaky_transfer :: streamfunc where
  "flaky_transfer clip s w =
     ((if name s = ''ffmpeg'' then RD_SUCCESS else RD_FAILED, Some ''clip.mp4''),
      w\<lparr>files := insert ''clip.mp4'' (files w)\<rparr>)"

text \<open>The same world, in which the operating system refuses to remove the output file.\<close>

definition locked_world :: world where
  "locked_world = \<lparr>files = {}, others = {}, protected = {''clip.mp4''}, logged = []\<rparr>"

text \<open>
  Collaborators for the scenarios: the extractor resolves every entry of the playlist to
  the test clip, except \<open>1-2\<close>, for which it finds no flavors; saving creates the output
  file and succeeds, piping succeeds; the exit code mapping reports a failed subprocess
  as a failure; and the settings of an \<open>IOContext\<close> with its defaults.
\<close>

definition areena_clip :: "string \<Rightarrow> clip" where
  "areena_clip u = test_clip u (if u = ''1-2'' then [] else successful_clip_flavors)"

definition test_collaborators :: "string list \<Rightarrow> bool \<Rightarrow> collaborators" where
  "test_collaborators playlist literal =
     \<lparr>get_playlist = (\<lambda>base_url latest w. (playlist, w)),
      extract_clip = (\<lambda>u w. (areena_clip u, w)),
      is_constant_pattern = literal,
      template = ''${title}'',
      located_in_finland = (\<lambda>page w. True),
      to_external_rd_code = (\<lambda>r. if r = RD_SUBPROCESS_EXECUTE_FAILED then RD_FAILED else r),
      set_iteration = remdups,
      warn_on_unsupported_feature = (\<lambda>s io w. w),
      file_extension = (\<lambda>s fmt. ''.mp4''),
      generator_filename = (\<lambda>t ext io w. Some (''clip'' @ ext)),
      full_stream_already_downloaded = (\<lambda>s f c io w. False),
      save_stream = (\<lambda>s f c io w. (RD_SUCCESS, w\<lparr>files := insert f (files w)\<rparr>)),
      pipe_stream = (\<lambda>s io w. (RD_SUCCESS, w)),
      subprocess_execute = (\<lambda>args w. w)\<rparr>"

definition IOContext :: "string option \<Rightarrow> io_context" where
  "IOContext out =
     \<lparr>outputfilename = out, overwrite = False,
      download_limits = \<lparr>start_position = None, duration = None\<rparr>,
      postprocess_command = None, preferred_format = None\<rparr>"

section \<open>Properties of the flavor selection\<close>

subsection \<open>Sorting\<close>

lemma sorted_map_last_max:
  "sorted (map k ys) \<Longrightarrow> y \<in> set ys \<Longrightarrow> k y \<le> k (last ys)"
  by (induction ys) (auto)

lemma sorted_map_hd_min:
  "sorted (map k ys) \<Longrightarrow> y \<in> set ys \<Longrightarrow> k (hd ys) \<le> k y"
  by (cases ys) auto

lemma last_py_sorted_asc:
  assumes "xs \<noteq> []"
  shows "last (py_sorted k False xs) \<in> set xs"
    and "x \<in> set xs \<Longrightarrow> k x \<le> k (last (py_sorted k False xs))"
proof -
  have ne: "sort_key k xs \<noteq> []" using assms by (metis length_sort length_0_conv)
  show "last (py_sorted k False xs) \<in> set xs"
    using last_in_set [OF ne] by (simp add: py_sorted_def)
  show "x \<in> set xs \<Longrightarrow> k x \<le> k (last (py_sorted k False xs))"
    using sorted_map_last_max [of k "sort_key k xs" x] by (simp add: py_sorted_def)
qed

lemma last_py_sorted_desc:
  assumes "xs \<noteq> []"
  shows "last (py_sorted k True xs) \<in> set xs"
    and "x \<in> set xs \<Longrightarrow> k (last (py_sorted k True xs)) \<le> k x"
proof -
  have ne: "sort_key k (rev xs) \<noteq> []" using assms by (metis length_sort length_0_conv rev_is_Nil_conv)
  have l: "last (py_sorted k True xs) = hd (sort_key k (rev xs))"
    by (simp add: py_sorted_def last_rev)
  show "last (py_sorted k True xs) \<in> set xs"
    using hd_in_set [OF ne] by (simp add: l)
  show "x \<in> set xs \<Longrightarrow> k (last (py_sorted k True xs)) \<le> k x"
    using sorted_map_hd_min [of k "sort_key k (rev xs)" x] by (simp add: l)
qed

lemma py_sorted_Nil_iff [simp]: "py_sorted k r xs = [] \<longleftrightarrow> xs = []"
  by (metis py_sorted_def length_sort length_0_conv rev_is_Nil_conv)

lemma set_py_sorted [simp]: "set (py_sorted k r xs) = set xs"
  by (simp add: py_sorted_def)

lemma mset_py_sorted [simp]: "mset (py_sorted k r xs) = mset xs"
  by (simp add: py_sorted_def)

subsection \<open>The backend filter\<close>

lemma streams_fsb_nonempty:
  "streams (filter_streams_by_backend filters fl) \<noteq> [] \<longleftrightarrow> backend_enabled filters fl"
  by (auto simp: filter_streams_by_backend_def backend_enabled_def filter_empty_conv)

lemma height_fsb [simp]: "height (filter_streams_by_backend filters fl) = height fl"
  and bitrate_fsb [simp]: "bitrate (filter_streams_by_backend filters fl) = bitrate fl"
  by (simp_all add: filter_streams_by_backend_def)

lemma apply_backend_filter_enabled:
  assumes "\<exists>fl \<in> set fls. backend_enabled filters fl"
  shows "apply_backend_filter set_iter fls filters =
           map (filter_streams_by_backend filters) (filter (backend_enabled filters) fls)"
proof -
  have eq: "filter (\<lambda>fl. streams fl \<noteq> []) (map (filter_streams_by_backend filters) fls) =
        map (filter_streams_by_backend filters) (filter (backend_enabled filters) fls)"
    by (simp add: filter_map comp_def streams_fsb_nonempty)
  from assms have "filter (backend_enabled filters) fls \<noteq> []"
    by (auto simp: filter_empty_conv)
  moreover from assms have "fls \<noteq> []" by auto
  ultimately show ?thesis
    by (simp add: apply_backend_filter_def eq Let_def)
qed

lemma supported_backends_eq:
  "concat (map (\<lambda>fl. map name (filter is_valid (streams fl))) fls) =
     map name (filter is_valid (handles fls))"
  by (induction fls) (simp_all add: handles_def)

lemma error_messages_eq:
  "concat (map (\<lambda>fl. map error_message (filter (\<lambda>s. \<not> is_valid s) (streams fl))) fls) =
     map error_message (filter (\<lambda>s. \<not> is_valid s) (handles fls))"
  by (induction fls) (simp_all add: handles_def)

lemma backend_not_enabled_flavor_eq:
  "backend_not_enabled_flavor set_iter fls =
     FailedFlavor
       (if \<exists>s \<in> set (handles fls). is_valid s then
          Some (''Required backend not enabled. Try: --backend '' @
                join '','' (set_iter (map name (filter is_valid (handles fls)))))
        else if \<exists>s \<in> set (handles fls). \<not> is_valid s then
          error_message (hd (filter (\<lambda>s. \<not> is_valid s) (handles fls)))
        else Some ''Stream not found'')"
  unfolding backend_not_enabled_flavor_def supported_backends_eq error_messages_eq Let_def
  by (auto simp: filter_empty_conv hd_map)

lemma apply_backend_filter_disabled:
  assumes "fls \<noteq> []" and "\<forall>fl \<in> set fls. \<not> backend_enabled filters fl"
  shows "apply_backend_filter set_iter fls filters = [backend_not_enabled_flavor set_iter fls]"
proof -
  have "filter (\<lambda>fl. streams fl \<noteq> []) (map (filter_streams_by_backend filters) fls) = []"
    unfolding filter_empty_conv using assms(2) streams_fsb_nonempty [of filters] by auto
  then show ?thesis
    using assms(1) by (simp add: apply_backend_filter_def Let_def)
qed

subsection \<open>The resolution filter\<close>

lemma set_apply_resolution_filters:
  "set (apply_resolution_filters fls filters) =
     (if filter (within_limits filters) fls \<noteq> [] then set (filter (within_limits filters) fls)
      else set fls)"
  by (simp add: apply_resolution_filters_def Let_def)

lemma mset_apply_resolution_filters:
  "mset (apply_resolution_filters fls filters) =
     (if filter (within_limits filters) fls \<noteq> [] then mset (filter (within_limits filters) fls)
      else mset fls)"
  by (simp add: apply_resolution_filters_def Let_def)

lemma apply_resolution_filters_Nil_iff:
  "apply_resolution_filters fls filters = [] \<longleftrightarrow> fls = []"
  by (auto simp: apply_resolution_filters_def Let_def)

lemma apply_resolution_filters_only_height:
  assumes "maxheight filters = Some H" "maxbitrate filters = None"
  shows "apply_resolution_filters fls filters =
           (if filter (within_limits filters) fls \<noteq> []
            then py_sorted sort_max_resolution_min_bitrate False (filter (within_limits filters) fls)
            else py_sorted sort_max_resolution_min_bitrate True fls)"
  using assms by (simp add: apply_resolution_filters_def Let_def)

lemma apply_resolution_filters_unset:
  assumes "maxheight filters = None" "maxbitrate filters = None"
  shows "apply_resolution_filters fls filters = py_sorted sort_max_bitrate False fls"
proof -
  have "filter (within_limits filters) fls = fls"
    using assms by (simp add: within_limits_def)
  then show ?thesis
    using assms by (simp add: apply_resolution_filters_def Let_def)
qed

lemma apply_resolution_filters_single:
  "apply_resolution_filters [fl] filters = [fl]"
  by (simp add: apply_resolution_filters_def Let_def py_sorted_def)

lemma within_limits_only_height:
  "maxheight filters = Some H \<Longrightarrow> maxbitrate filters = None \<Longrightarrow>
   within_limits filters fl \<longleftrightarrow> or0 (height fl) \<le> H"
  by (simp add: within_limits_def)

subsection \<open>Selection\<close>

lemma select_flavor_enabled:
  assumes "\<exists>fl \<in> set fls. backend_enabled filters fl"
  shows "select_flavor set_iter fls filters =
           Some (last (apply_resolution_filters
                   (map (filter_streams_by_backend filters) (filter (backend_enabled filters) fls))
                   filters))"
proof -
  from assms have ne: "fls \<noteq> []" by auto
  from assms have "filter (backend_enabled filters) fls \<noteq> []"
    by (auto simp: filter_empty_conv)
  then show ?thesis
    using ne by (simp add: select_flavor_def apply_backend_filter_enabled [OF assms] Let_def
        apply_resolution_filters_Nil_iff)
qed

lemma select_flavor_disabled:
  assumes "fls \<noteq> []" and "\<forall>fl \<in> set fls. \<not> backend_enabled filters fl"
  shows "select_flavor set_iter fls filters = Some (backend_not_enabled_flavor set_iter fls)"
  using assms(1)
  by (simp add: select_flavor_def apply_backend_filter_disabled [OF assms]
      apply_resolution_filters_single)

lemma selected_source:
  assumes "sel \<in> set (map (filter_streams_by_backend filters) (filter (backend_enabled filters) fls))"
  obtains src where "src \<in> set fls" "backend_enabled filters src"
    "sel = filter_streams_by_backend filters src"
  using assms by auto

subsection \<open>The scenarios of the test suite\<close>

lemmas example_defs = successful_clip_flavors_def video_def mock_stream_def StreamFilters_def

lemmas selection_defs = select_flavor_def apply_backend_filter_def apply_resolution_filters_def
  filter_streams_by_backend_def within_limits_def py_sorted_def
  sort_max_bitrate_def sort_max_resolution_min_bitrate_def sort_max_resolution_max_bitrate_def

lemma fsb_example [simp]:
  "fl \<in> set successful_clip_flavors \<Longrightarrow>
     filter_streams_by_backend (StreamFilters mh mb) fl = fl"
  by (auto simp: example_defs filter_streams_by_backend_def)

lemma enabled_example [simp]:
  "fl \<in> set successful_clip_flavors \<Longrightarrow> backend_enabled (StreamFilters mh mb) fl"
  by (auto simp: example_defs backend_enabled_def)

lemma test_download_filter_exact_resolution:
  "select_flavor set_iter successful_clip_flavors (StreamFilters (Some 720) None) =
     Some (video 720 1280 1412)"
  by (simp add: example_defs selection_defs less_eq_prod_def)

lemma test_download_filter_resolution:
  "select_flavor set_iter successful_clip_flavors (StreamFilters (Some 700) None) =
     Some (video 360 640 880)"
  by (simp add: example_defs selection_defs less_eq_prod_def)

lemma test_download_filter_below_all:
  "select_flavor set_iter successful_clip_flavors (StreamFilters (Some 100) None) =
     Some (video 360 640 880)"
  by (simp add: example_defs selection_defs less_eq_prod_def)

lemma test_download_filter_bitrate1:
  "select_flavor set_iter successful_clip_flavors (StreamFilters None (Some 1500)) =
     Some (video 720 1280 1412)"
  by (simp add: example_defs selection_defs less_eq_prod_def)

lemma test_download_filter_bitrate2:
  "select_flavor set_iter successful_clip_flavors (StreamFilters None (Some 2000)) =
     Some (video 720 1280 1872)"
  by (simp add: example_defs selection_defs less_eq_prod_def)

lemma test_download_multiple_filters:
  "select_flavor set_iter successful_clip_flavors (StreamFilters (Some 720) (Some 1000)) =
     Some (video 360 640 880)"
  by (simp add: example_defs selection_defs less_eq_prod_def)

lemma test_download_success:
  "select_flavor set_iter successful_clip_flavors (StreamFilters None None) =
     Some (video 1080 1920 2808)"
  by (simp add: example_defs selection_defs less_eq_prod_def)

subsection \<open>Claims about the selection\<close>

text \<open>
  C1. With \<open>maxheight = H\<close> set and \<open>maxbitrate\<close> unset, and at least one backend-enabled
  flavor, \<open>select_flavor\<close> returns the backend-filtered copy of a backend-enabled flavor
  \<open>src\<close>. If some backend-enabled flavor has a height of at most \<open>H\<close> (an absent height
  counting as 0), the height of \<open>src\<close> is at most \<open>H\<close>. If every backend-enabled flavor is
  higher than \<open>H\<close>, then \<open>src\<close> has the smallest height of them.
\<close>

theorem select_flavor_maxheight:
  assumes mh: "maxheight filters = Some H" and mb: "maxbitrate filters = None"
    and en: "\<exists>fl \<in> set fls. backend_enabled filters fl"
  shows "\<exists>src \<in> set fls. backend_enabled filters src \<and>
           select_flavor set_iter fls filters = Some (filter_streams_by_backend filters src) \<and>
           ((\<exists>fl \<in> set fls. backend_enabled filters fl \<and> or0 (height fl) \<le> H) \<longrightarrow>
              or0 (height src) \<le> H) \<and>
           ((\<forall>fl \<in> set fls. backend_enabled filters fl \<longrightarrow> H < or0 (height fl)) \<longrightarrow>
              H < or0 (height src) \<and>
              (\<forall>fl \<in> set fls. backend_enabled filters fl \<longrightarrow>
                 or0 (height src) \<le> or0 (height fl)))"
proof -
  let ?bf = "map (filter_streams_by_backend filters) (filter (backend_enabled filters) fls)"
  let ?W = "within_limits filters"
  let ?k = sort_max_resolution_min_bitrate
  from en have ne: "?bf \<noteq> []" by (auto simp: filter_empty_conv)
  have W: "?W fl \<longleftrightarrow> or0 (height fl) \<le> H" for fl
    using mh mb by (rule within_limits_only_height)
  show ?thesis
  proof (cases "filter ?W ?bf = []")
    case False
    let ?sel = "last (py_sorted ?k False (filter ?W ?bf))"
    have sel: "select_flavor set_iter fls filters = Some ?sel"
      using select_flavor_enabled [OF en, of set_iter] False
      by (simp add: apply_resolution_filters_only_height [OF mh mb])
    have in_f: "?sel \<in> set (filter ?W ?bf)"
      using False by (rule last_py_sorted_asc(1))
    then have "?sel \<in> set ?bf" by simp
    then obtain src where
      src: "src \<in> set fls" "backend_enabled filters src"
      "?sel = filter_streams_by_backend filters src"
      by (rule selected_source)
    from in_f have low: "or0 (height src) \<le> H"
      by (simp add: src(3) W)
    with src(1,2) have "\<not> (\<forall>fl \<in> set fls. backend_enabled filters fl \<longrightarrow> H < or0 (height fl))"
      by (auto simp: not_less)
    with src sel low show ?thesis by auto
  next
    case True
    let ?sel = "last (py_sorted ?k True ?bf)"
    have sel: "select_flavor set_iter fls filters = Some ?sel"
      using select_flavor_enabled [OF en, of set_iter] True
      by (simp add: apply_resolution_filters_only_height [OF mh mb])
    from last_py_sorted_desc(1) [OF ne] obtain src where
      src: "src \<in> set fls" "backend_enabled filters src"
      "?sel = filter_streams_by_backend filters src"
      by (rule selected_source)
    have high: "H < or0 (height fl)" if "fl \<in> set fls" "backend_enabled filters fl" for fl
    proof -
      from that have "filter_streams_by_backend filters fl \<in> set ?bf" by simp
      with True have "\<not> ?W (filter_streams_by_backend filters fl)"
        unfolding filter_empty_conv by blast
      then show ?thesis by (simp add: W)
    qed
    have least: "or0 (height src) \<le> or0 (height fl)"
      if "fl \<in> set fls" "backend_enabled filters fl" for fl
    proof -
      from that have "filter_streams_by_backend filters fl \<in> set ?bf" by simp
      from last_py_sorted_desc(2) [OF ne this, of ?k]
      show ?thesis
        by (auto simp: src(3) sort_max_resolution_min_bitrate_def less_eq_prod_def)
    qed
    from high src(1,2) have "\<not> (\<exists>fl \<in> set fls. backend_enabled filters fl \<and> or0 (height fl) \<le> H)"
      by (auto simp: not_le)
    with src sel high least show ?thesis by auto
  qed
qed

theorem select_flavor_maxheight_witness:
  "maxheight (StreamFilters (Some 720) None) = Some 720 \<and>
   maxbitrate (StreamFilters (Some 720) None) = None \<and>
   (\<exists>fl \<in> set successful_clip_flavors.
      backend_enabled (StreamFilters (Some 720) None) fl \<and> or0 (height fl) \<le> 720) \<and>
   (\<exists>src \<in> set successful_clip_flavors.
      select_flavor remdups successful_clip_flavors (StreamFilters (Some 720) None) =
        Some (filter_streams_by_backend (StreamFilters (Some 720) None) src) \<and>
      or0 (height src) \<le> 720) \<and>
   maxheight (StreamFilters (Some 100) None) = Some 100 \<and>
   maxbitrate (StreamFilters (Some 100) None) = None \<and>
   \<not> (\<exists>fl \<in> set successful_clip_flavors.
        backend_enabled (StreamFilters (Some 100) None) fl \<and> or0 (height fl) \<le> 100) \<and>
   (\<exists>src \<in> set successful_clip_flavors.
      select_flavor remdups successful_clip_flavors (StreamFilters (Some 100) None) =
        Some (filter_streams_by_backend (StreamFilters (Some 100) None) src) \<and>
      100 < or0 (height src) \<and>
      (\<forall>fl \<in> set successful_clip_flavors.
         backend_enabled (StreamFilters (Some 100) None) fl \<longrightarrow>
           or0 (height src) \<le> or0 (height fl)))"
proof -
  let ?A = "StreamFilters (Some 720) None" and ?B = "StreamFilters (Some 100) None"
  have a: "maxheight ?A = Some 720" "maxbitrate ?A = None"
    and b: "maxheight ?B = Some 100" "maxbitrate ?B = None"
    by (simp_all add: StreamFilters_def)
  have low: "\<exists>fl \<in> set successful_clip_flavors. backend_enabled ?A fl \<and> or0 (height fl) \<le> 720"
    by (simp add: example_defs backend_enabled_def)
  have high: "\<forall>fl \<in> set successful_clip_flavors. backend_enabled ?B fl \<longrightarrow> 100 < or0 (height fl)"
    by (simp add: example_defs backend_enabled_def)
  have ena: "\<exists>fl \<in> set successful_clip_flavors. backend_enabled ?A fl"
    using low by blast
  have enb: "\<exists>fl \<in> set successful_clip_flavors. backend_enabled ?B fl"
    by (simp add: example_defs backend_enabled_def)
  from select_flavor_maxheight [OF a ena, of remdups] low
  have ca: "\<exists>src \<in> set successful_clip_flavors.
      select_flavor remdups successful_clip_flavors ?A = Some (filter_streams_by_backend ?A src) \<and>
      or0 (height src) \<le> 720"
    by blast
  from select_flavor_maxheight [OF b enb, of remdups] high
  have cb: "\<exists>src \<in> set successful_clip_flavors.
      select_flavor remdups successful_clip_flavors ?B = Some (filter_streams_by_backend ?B src) \<and>
      100 < or0 (height src) \<and>
      (\<forall>fl \<in> set successful_clip_flavors. backend_enabled ?B fl \<longrightarrow> or0 (height src) \<le> or0 (height fl))"
    by blast
  from high
  have high': "\<not> (\<exists>fl \<in> set successful_clip_flavors. backend_enabled ?B fl \<and> or0 (height fl) \<le> 100)"
    by (auto simp: not_le)
  from a b low high' ca cb show ?thesis by blast
qed

text \<open>
  C2. For the four flavors of the test clip (heights 360, 720, 720, 1080 with bitrates
  880, 1412, 1872, 2808), in any order, and \<open>maxheight = 720\<close> with \<open>maxbitrate\<close> unset,
  \<open>select_flavor\<close> chooses the 720p flavor with bitrate 1412.
\<close>

theorem select_flavor_exact_resolution:
  assumes "set fls = set successful_clip_flavors"
  shows "select_flavor set_iter fls (StreamFilters (Some 720) None) =
           Some (video 720 1280 1412)"
proof -
  let ?F = "StreamFilters (Some 720) None"
  let ?k = sort_max_resolution_min_bitrate
  let ?W = "within_limits ?F"
  have mh: "maxheight ?F = Some 720" and mb: "maxbitrate ?F = None"
    by (simp_all add: StreamFilters_def)
  have all: "\<forall>fl \<in> set fls. backend_enabled ?F fl \<and> filter_streams_by_backend ?F fl = fl"
    using assms by simp
  then have bf: "map (filter_streams_by_backend ?F) (filter (backend_enabled ?F) fls) = fls"
    by (simp add: map_idI)
  have m: "video 720 1280 1412 \<in> set fls"
    using assms by (simp add: successful_clip_flavors_def)
  then have en: "\<exists>fl \<in> set fls. backend_enabled ?F fl"
    using all by blast
  have mW: "?W (video 720 1280 1412)"
    by (simp add: within_limits_only_height [OF mh mb] video_def)
  with m have ne: "filter ?W fls \<noteq> []"
    by (auto simp: filter_empty_conv)
  let ?sel = "last (py_sorted ?k False (filter ?W fls))"
  have sel: "select_flavor set_iter fls ?F = Some ?sel"
    using select_flavor_enabled [OF en, of set_iter] ne
    by (simp add: bf apply_resolution_filters_only_height [OF mh mb])
  have "?sel \<in> set (filter ?W fls)"
    using ne by (rule last_py_sorted_asc(1))
  then have mem: "?sel \<in> set successful_clip_flavors" and W: "or0 (height ?sel) \<le> 720"
    using assms by (simp_all add: within_limits_only_height [OF mh mb])
  have "?k (video 720 1280 1412) \<le> ?k ?sel"
    using m mW by (intro last_py_sorted_asc(2) [OF ne]) simp
  then have "(720, - 1412) \<le> (or0 (height ?sel), - or0 (bitrate ?sel))"
    by (simp add: sort_max_resolution_min_bitrate_def video_def)
  with mem W have "?sel = video 720 1280 1412"
    by (auto simp: successful_clip_flavors_def video_def less_eq_prod_def)
  with sel show ?thesis by simp
qed

theorem select_flavor_exact_resolution_witness:
  "set successful_clip_flavors = set successful_clip_flavors \<and>
   select_flavor remdups successful_clip_flavors (StreamFilters (Some 720) None) =
     Some (video 720 1280 1412) \<and>
   set [video 360 640 880, video 720 1280 1412, video 720 1280 1872, video 1080 1920 2808] =
     set successful_clip_flavors \<and>
   select_flavor remdups
       [video 360 640 880, video 720 1280 1412, video 720 1280 1872, video 1080 1920 2808]
       (StreamFilters (Some 720) None) =
     Some (video 720 1280 1412)"
proof -
  have h: "set [video 360 640 880, video 720 1280 1412, video 720 1280 1872, video 1080 1920 2808] =
     set successful_clip_flavors"
    by (auto simp: successful_clip_flavors_def)
  show ?thesis
    using select_flavor_exact_resolution [OF refl, of remdups] select_flavor_exact_resolution [OF h, of remdups] h by simp
qed

text \<open>
  C5. For an empty list of flavors the backend filter returns the empty list and the
  selection returns nothing. For a non-empty list in which no handle has the name of an
  enabled backend, the backend filter returns a single \<open>FailedFlavor\<close>, which is also
  the selected flavor. Its message is, in this order: when some handle is valid,
  \<open>Required backend not enabled. Try: --backend\<close> followed by the comma-separated names
  of the valid handles, each once; else when some handle is invalid, the error message of
  the first invalid handle; else \<open>Stream not found\<close>. The iteration of a Python set is
  assumed to enumerate each inserted element once.
\<close>

theorem backend_filter_failure_diagnostic:
  assumes iter: "\<forall>xs. distinct (set_iter xs) \<and> set (set_iter xs) = set xs"
  shows "apply_backend_filter set_iter [] filters = [] \<and>
         select_flavor set_iter [] filters = None \<and>
         (fls \<noteq> [] \<and> (\<forall>fl \<in> set fls. \<not> backend_enabled filters fl) \<longrightarrow>
            (\<exists>msg. apply_backend_filter set_iter fls filters = [FailedFlavor msg] \<and>
                   select_flavor set_iter fls filters = Some (FailedFlavor msg) \<and>
                   (if \<exists>s \<in> set (handles fls). is_valid s then
                      \<exists>names. distinct names \<and>
                        set names = name ` {s \<in> set (handles fls). is_valid s} \<and>
                        msg = Some (''Required backend not enabled. Try: --backend '' @
                                    join '','' names)
                    else if \<exists>s \<in> set (handles fls). \<not> is_valid s then
                      msg = error_message (hd (filter (\<lambda>s. \<not> is_valid s) (handles fls)))
                    else msg = Some ''Stream not found'')))"
proof (intro conjI impI)
  show "apply_backend_filter set_iter [] filters = []"
    by (simp add: apply_backend_filter_def)
  show "select_flavor set_iter [] filters = None"
    by (simp add: select_flavor_def)
next
  assume a: "fls \<noteq> [] \<and> (\<forall>fl \<in> set fls. \<not> backend_enabled filters fl)"
  let ?valid = "filter is_valid (handles fls)"
  let ?msg = "if \<exists>s \<in> set (handles fls). is_valid s then
          Some (''Required backend not enabled. Try: --backend '' @
                join '','' (set_iter (map name ?valid)))
        else if \<exists>s \<in> set (handles fls). \<not> is_valid s then
          error_message (hd (filter (\<lambda>s. \<not> is_valid s) (handles fls)))
        else Some ''Stream not found''"
  from a have a1: "fls \<noteq> []" and a2: "\<forall>fl \<in> set fls. \<not> backend_enabled filters fl"
    by simp_all
  have bf: "apply_backend_filter set_iter fls filters = [FailedFlavor ?msg]"
    by (simp only: apply_backend_filter_disabled [OF a1 a2] backend_not_enabled_flavor_eq)
  have sf: "select_flavor set_iter fls filters = Some (FailedFlavor ?msg)"
    by (simp only: select_flavor_disabled [OF a1 a2] backend_not_enabled_flavor_eq)
  have names: "distinct (set_iter (map name ?valid)) \<and>
      set (set_iter (map name ?valid)) = name ` {s \<in> set (handles fls). is_valid s}"
    using iter by auto
  show "\<exists>msg. apply_backend_filter set_iter fls filters = [FailedFlavor msg] \<and>
                   select_flavor set_iter fls filters = Some (FailedFlavor msg) \<and>
                   (if \<exists>s \<in> set (handles fls). is_valid s then
                      \<exists>names. distinct names \<and>
                        set names = name ` {s \<in> set (handles fls). is_valid s} \<and>
                        msg = Some (''Required backend not enabled. Try: --backend '' @
                                    join '','' names)
                    else if \<exists>s \<in> set (handles fls). \<not> is_valid s then
                      msg = error_message (hd (filter (\<lambda>s. \<not> is_valid s) (handles fls)))
                    else msg = Some ''Stream not found'')"
  proof (intro exI conjI)
    show "apply_backend_filter set_iter fls filters = [FailedFlavor ?msg]" by (rule bf)
    show "select_flavor set_iter fls filters = Some (FailedFlavor ?msg)" by (rule sf)
    show "if \<exists>s \<in> set (handles fls). is_valid s then
                      \<exists>names. distinct names \<and>
                        set names = name ` {s \<in> set (handles fls). is_valid s} \<and>
                        ?msg = Some (''Required backend not enabled. Try: --backend '' @
                                    join '','' names)
                    else if \<exists>s \<in> set (handles fls). \<not> is_valid s then
                      ?msg = error_message (hd (filter (\<lambda>s. \<not> is_valid s) (handles fls)))
                    else ?msg = Some ''Stream not found''"
      using names by (simp only: if_True if_False split: if_split) blast
  qed
qed

theorem backend_filter_failure_diagnostic_witness:
  "(\<forall>xs::string list. distinct (remdups xs) \<and> set (remdups xs) = set xs) \<and>
   rtmp_only \<noteq> [] \<and> \<not> (\<exists>fl \<in> set rtmp_only. backend_enabled (StreamFilters None None) fl) \<and>
   (\<exists>s \<in> set (handles rtmp_only). is_valid s) \<and>
   (\<exists>names. set names = name ` {s \<in> set (handles rtmp_only). is_valid s} \<and>
      select_flavor remdups rtmp_only (StreamFilters None None) =
        Some (FailedFlavor (Some (''Required backend not enabled. Try: --backend '' @
                                  join '','' names)))) \<and>
   geo_blocked \<noteq> [] \<and> \<not> (\<exists>fl \<in> set geo_blocked. backend_enabled (StreamFilters None None) fl) \<and>
   \<not> (\<exists>s \<in> set (handles geo_blocked). is_valid s) \<and>
   (\<exists>s \<in> set (handles geo_blocked). \<not> is_valid s) \<and>
   select_flavor remdups geo_blocked (StreamFilters None None) =
     Some (FailedFlavor (error_message (hd (filter (\<lambda>s. \<not> is_valid s) (handles geo_blocked))))) \<and>
   streamless \<noteq> [] \<and> \<not> (\<exists>fl \<in> set streamless. backend_enabled (StreamFilters None None) fl) \<and>
   \<not> (\<exists>s \<in> set (handles streamless). is_valid s) \<and>
   \<not> (\<exists>s \<in> set (handles streamless). \<not> is_valid s) \<and>
   select_flavor remdups streamless (StreamFilters None None) =
     Some (FailedFlavor (Some ''Stream not found''))"
proof -
  let ?F = "StreamFilters None None"
  have it: "\<forall>xs::string list. distinct (remdups xs) \<and> set (remdups xs) = set xs"
    by simp
  have a: "rtmp_only \<noteq> [] \<and> (\<forall>fl \<in> set rtmp_only. \<not> backend_enabled ?F fl)"
    and a1: "\<exists>s \<in> set (handles rtmp_only). is_valid s"
    by (simp_all add: rtmp_only_def StreamFilters_def backend_enabled_def handles_def)
  have b: "geo_blocked \<noteq> [] \<and> (\<forall>fl \<in> set geo_blocked. \<not> backend_enabled ?F fl)"
    and b1: "\<not> (\<exists>s \<in> set (handles geo_blocked). is_valid s)"
    and b2: "\<exists>s \<in> set (handles geo_blocked). \<not> is_valid s"
    by (simp_all add: geo_blocked_def FailedFlavor_def StreamFilters_def backend_enabled_def
        handles_def)
  have c: "streamless \<noteq> [] \<and> (\<forall>fl \<in> set streamless. \<not> backend_enabled ?F fl)"
    and c1: "\<not> (\<exists>s \<in> set (handles streamless). is_valid s)"
    and c2: "\<not> (\<exists>s \<in> set (handles streamless). \<not> is_valid s)"
    by (simp_all add: streamless_def StreamFilters_def backend_enabled_def handles_def)
  from backend_filter_failure_diagnostic [OF it, of ?F rtmp_only] a
  have "\<exists>msg. select_flavor remdups rtmp_only ?F = Some (FailedFlavor msg) \<and>
          (\<exists>names. distinct names \<and>
             set names = name ` {s \<in> set (handles rtmp_only). is_valid s} \<and>
             msg = Some (''Required backend not enabled. Try: --backend '' @ join '','' names))"
    by (simp only: a1 if_True simp_thms) blast
  then have ca: "\<exists>names. set names = name ` {s \<in> set (handles rtmp_only). is_valid s} \<and>
      select_flavor remdups rtmp_only ?F =
        Some (FailedFlavor (Some (''Required backend not enabled. Try: --backend '' @
                                  join '','' names)))"
    by blast
  from backend_filter_failure_diagnostic [OF it, of ?F geo_blocked] b
  have cb: "select_flavor remdups geo_blocked ?F =
     Some (FailedFlavor (error_message (hd (filter (\<lambda>s. \<not> is_valid s) (handles geo_blocked)))))"
    by (simp only: b1 b2 if_True if_False simp_thms) blast
  from backend_filter_failure_diagnostic [OF it, of ?F streamless] c
  have cc: "select_flavor remdups streamless ?F = Some (FailedFlavor (Some ''Stream not found''))"
    by (simp only: c1 c2 if_True if_False simp_thms) blast
  from it a a1 ca b b1 b2 cb c c1 c2 cc show ?thesis by blast
qed

text \<open>
  C6. For a non-empty list the resolution filter returns a non-empty list of flavors of
  that list; when no flavor is within both ceilings it returns all of them, reordered.
  Hence \<open>select_flavor\<close> returns the backend-filtered copy of a backend-enabled flavor
  whenever there is one.
\<close>

theorem resolution_filter_never_empties:
  "(fls \<noteq> [] \<longrightarrow>
      apply_resolution_filters fls filters \<noteq> [] \<and>
      set (apply_resolution_filters fls filters) \<subseteq> set fls \<and>
      (filter (within_limits filters) fls = [] \<longrightarrow>
         mset (apply_resolution_filters fls filters) = mset fls)) \<and>
   ((\<exists>fl \<in> set fls. backend_enabled filters fl) \<longrightarrow>
      (\<exists>src \<in> set fls. backend_enabled filters src \<and>
           select_flavor set_iter fls filters = Some (filter_streams_by_backend filters src)))"
proof (intro conjI impI)
  assume ne: "fls \<noteq> []"
  show "apply_resolution_filters fls filters \<noteq> []"
    using ne by (simp add: apply_resolution_filters_Nil_iff)
  show "set (apply_resolution_filters fls filters) \<subseteq> set fls"
    by (auto simp: set_apply_resolution_filters split: if_splits)
next
  assume "fls \<noteq> []" "filter (within_limits filters) fls = []"
  then show "mset (apply_resolution_filters fls filters) = mset fls"
    by (simp add: mset_apply_resolution_filters)
next
  assume en: "\<exists>fl \<in> set fls. backend_enabled filters fl"
  let ?bf = "map (filter_streams_by_backend filters) (filter (backend_enabled filters) fls)"
  from en have "?bf \<noteq> []" by (auto simp: filter_empty_conv)
  then have "apply_resolution_filters ?bf filters \<noteq> []"
    by (simp add: apply_resolution_filters_Nil_iff)
  then have "last (apply_resolution_filters ?bf filters) \<in> set (apply_resolution_filters ?bf filters)"
    by (rule last_in_set)
  also have "\<dots> \<subseteq> set ?bf"
    by (auto simp: set_apply_resolution_filters split: if_splits)
  finally obtain src where "src \<in> set fls" "backend_enabled filters src"
    "last (apply_resolution_filters ?bf filters) = filter_streams_by_backend filters src"
    by auto
  then show "\<exists>src \<in> set fls. backend_enabled filters src \<and>
           select_flavor set_iter fls filters = Some (filter_streams_by_backend filters src)"
    using select_flavor_enabled [OF en, of set_iter] by auto
qed

theorem resolution_filter_never_empties_witness:
  "successful_clip_flavors \<noteq> [] \<and>
   filter (within_limits (StreamFilters (Some 100) (Some 100))) successful_clip_flavors = [] \<and>
   (\<exists>fl \<in> set successful_clip_flavors. backend_enabled (StreamFilters (Some 100) (Some 100)) fl) \<and>
   apply_resolution_filters successful_clip_flavors (StreamFilters (Some 100) (Some 100)) \<noteq> [] \<and>
   mset (apply_resolution_filters successful_clip_flavors (StreamFilters (Some 100) (Some 100))) =
     mset successful_clip_flavors \<and>
   (\<exists>src \<in> set successful_clip_flavors.
      select_flavor remdups successful_clip_flavors (StreamFilters (Some 100) (Some 100)) =
        Some (filter_streams_by_backend (StreamFilters (Some 100) (Some 100)) src))"
proof -
  let ?F = "StreamFilters (Some 100) (Some 100)"
  have ne: "successful_clip_flavors \<noteq> []"
    by (simp add: successful_clip_flavors_def)
  have none: "filter (within_limits ?F) successful_clip_flavors = []"
    by (simp add: example_defs within_limits_def)
  have en: "\<exists>fl \<in> set successful_clip_flavors. backend_enabled ?F fl"
    by (simp add: example_defs backend_enabled_def)
  from resolution_filter_never_empties [of successful_clip_flavors ?F remdups] ne none en show ?thesis by blast
qed

text \<open>
  C9. With \<open>maxheight\<close> and \<open>maxbitrate\<close> both unset, and at least one backend-enabled
  flavor, \<open>select_flavor\<close> returns the backend-filtered copy of a backend-enabled flavor
  whose bitrate (absent counting as 0) is the largest among the backend-enabled ones.
\<close>

theorem select_flavor_default_highest_bitrate:
  assumes "maxheight filters = None" and "maxbitrate filters = None"
    and en: "\<exists>fl \<in> set fls. backend_enabled filters fl"
  shows "\<exists>src \<in> set fls. backend_enabled filters src \<and>
           select_flavor set_iter fls filters = Some (filter_streams_by_backend filters src) \<and>
           (\<forall>fl \<in> set fls. backend_enabled filters fl \<longrightarrow>
              or0 (bitrate fl) \<le> or0 (bitrate src))"
proof -
  let ?bf = "map (filter_streams_by_backend filters) (filter (backend_enabled filters) fls)"
  let ?sel = "last (py_sorted sort_max_bitrate False ?bf)"
  from en have ne: "?bf \<noteq> []" by (auto simp: filter_empty_conv)
  have sel: "select_flavor set_iter fls filters = Some ?sel"
    using select_flavor_enabled [OF en, of set_iter] assms(1,2)
    by (simp add: apply_resolution_filters_unset)
  from last_py_sorted_asc(1) [OF ne] obtain src where
    src: "src \<in> set fls" "backend_enabled filters src"
    "?sel = filter_streams_by_backend filters src"
    by (rule selected_source)
  have "or0 (bitrate fl) \<le> or0 (bitrate src)"
    if "fl \<in> set fls" "backend_enabled filters fl" for fl
  proof -
    from that have "filter_streams_by_backend filters fl \<in> set ?bf" by simp
    from last_py_sorted_asc(2) [OF ne this, of sort_max_bitrate]
    show ?thesis by (simp add: src(3) sort_max_bitrate_def)
  qed
  with src sel show ?thesis by auto
qed

theorem select_flavor_default_highest_bitrate_witness:
  "maxheight (StreamFilters None None) = None \<and>
   maxbitrate (StreamFilters None None) = None \<and>
   (\<exists>fl \<in> set successful_clip_flavors. backend_enabled (StreamFilters None None) fl) \<and>
   (\<exists>src \<in> set successful_clip_flavors.
      backend_enabled (StreamFilters None None) src \<and>
      select_flavor remdups successful_clip_flavors (StreamFilters None None) =
        Some (filter_streams_by_backend (StreamFilters None None) src) \<and>
      (\<forall>fl \<in> set successful_clip_flavors.
         backend_enabled (StreamFilters None None) fl \<longrightarrow>
           or0 (bitrate fl) \<le> or0 (bitrate src)))"
proof -
  let ?F = "StreamFilters None None"
  have h: "maxheight ?F = None" "maxbitrate ?F = None"
    by (simp_all add: StreamFilters_def)
  have en: "\<exists>fl \<in> set successful_clip_flavors. backend_enabled ?F fl"
    by (simp add: example_defs backend_enabled_def)
  from select_flavor_default_highest_bitrate [OF h en, of remdups] h en show ?thesis by blast
qed

section \<open>Properties of the retry orchestration\<close>

lemma attempts_append [simp]: "attempts (xs @ ys) = attempts xs @ attempts ys"
  by (induction xs rule: attempts.induct) simp_all

lemma try_all_loop_skips_invalid:
  "try_all_loop sf nr clip (filter is_valid strs) latest out w =
     try_all_loop sf nr clip strs latest out w"
  by (induction strs arbitrary: latest out w) (simp_all cong: if_cong)

lemma try_all_loop_attempts:
  assumes "try_all_loop sf nr clip strs latest out w = (res, calls, w')"
  shows "(\<exists>rest. filter is_valid strs = map fst (attempts calls) @ rest) \<and>
         (\<forall>a \<in> set (butlast (attempts calls)). nr (fst (snd a))) \<and>
         (attempts calls = [] \<longrightarrow> res = latest \<and> filter is_valid strs = []) \<and>
         (attempts calls \<noteq> [] \<longrightarrow> res = fst (snd (last (attempts calls)))) \<and>
         (attempts calls \<noteq> [] \<and> nr (fst (snd (last (attempts calls)))) \<longrightarrow>
            map fst (attempts calls) = filter is_valid strs)"
  using assms
proof (induction strs arbitrary: latest out w res calls w')
  case Nil
  then show ?case by simp
next
  case (Cons s strs)
  show ?case
  proof (cases "is_valid s")
    case False
    with Cons.prems have "try_all_loop sf nr clip strs latest out w = (res, calls, w')"
      by simp
    from Cons.IH [OF this] False show ?thesis by simp
  next
    case True
    define w2 where "w2 = logger DEBUG (''Now trying downloader '' @ name s)
        (if truthy out then remove_retry_file out w else w)"
    define removal where "removal = (if truthy out then [Remove_retry_file out] else [])"
    obtain r out' w3 where sf: "sf clip s w2 = ((r, out'), w3)"
      by (metis surj_pair)
    have rem: "attempts removal = []" by (simp add: removal_def)
    show ?thesis
    proof (cases "nr r")
      case False
      with Cons.prems True sf have "res = r" "calls = removal @ [Streamfunc clip s (r, out')]"
        by (auto simp: w2_def removal_def Let_def split: if_splits)
      with True False rem show ?thesis by simp
    next
      case nr: True
      obtain res' later w4 where rec: "try_all_loop sf nr clip strs r out' w3 = (res', later, w4)"
        by (metis prod_cases3)
      with Cons.prems True sf nr
      have eq: "res = res'" "calls = removal @ [Streamfunc clip s (r, out')] @ later"
        by (auto simp: w2_def removal_def Let_def split: if_splits)
      have att: "attempts calls = (s, r, out') # attempts later"
        by (simp add: eq rem)
      note IH = Cons.IH [OF rec]
      show ?thesis
      proof (cases "attempts later = []")
        case True
        with IH eq(1) att nr \<open>is_valid s\<close> show ?thesis by simp
      next
        case False
        with IH eq(1) att nr \<open>is_valid s\<close> show ?thesis by auto
      qed
    qed
  qed
qed

lemmas world_defs = empty_world_def logger_def remove_retry_file_def os_path_isfile_def
  os_remove_def os_path_exists_def

lemmas retry_defs = try_all_streams_def flaky_transfer_def backend_def invalid_stream_def
  needs_retry_download_def

subsection \<open>The attempts of a run\<close>

lemma try_all_loop_run:
  assumes "try_all_loop sf nr clip strs latest out w = (res, calls, w')"
  shows "\<exists>run. attempt_run sf nr clip (filter is_valid strs) out w run \<and>
           calls = run_calls clip out run \<and>
           res = (if run = [] then latest else fst (returned (last run))) \<and>
           w' = (if run = [] then w else world_after (last run))"
  using assms
proof (induction strs arbitrary: latest out w res calls w')
  case Nil
  then show ?case by simp
next
  case (Cons s strs)
  show ?case
  proof (cases "is_valid s")
    case False
    with Cons.prems have "try_all_loop sf nr clip strs latest out w = (res, calls, w')"
      by simp
    from Cons.IH [OF this] False show ?thesis by simp
  next
    case True
    define start where "start = logger DEBUG (''Now trying downloader '' @ name s)
        (if truthy out then remove_retry_file out w else w)"
    define removal where "removal = (if truthy out then [Remove_retry_file out] else [])"
    obtain r out' left where sf: "sf clip s start = ((r, out'), left)"
      by (metis surj_pair)
    show ?thesis
    proof (cases "nr r")
      case False
      with Cons.prems True sf
      have "res = r" "calls = removal @ [Streamfunc clip s (r, out')]" "w' = left"
        by (auto simp: start_def removal_def Let_def split: if_splits)
      with True False sf have
        "attempt_run sf nr clip (filter is_valid (s # strs)) out w [Attempt s start (r, out') left] \<and>
         calls = run_calls clip out [Attempt s start (r, out') left] \<and>
         res = fst (returned (last [Attempt s start (r, out') left])) \<and>
         w' = world_after (last [Attempt s start (r, out') left])"
        by (simp add: start_def removal_def)
      then show ?thesis by (intro exI [of _ "[Attempt s start (r, out') left]"]) simp
    next
      case nr: True
      obtain res' later w4 where rec: "try_all_loop sf nr clip strs r out' left = (res', later, w4)"
        by (metis prod_cases3)
      with Cons.prems True sf nr
      have eq: "res = res'" "calls = removal @ [Streamfunc clip s (r, out')] @ later" "w' = w4"
        by (auto simp: start_def removal_def Let_def split: if_splits)
      from Cons.IH [OF rec] obtain run where
        run: "attempt_run sf nr clip (filter is_valid strs) out' left run"
          "later = run_calls clip out' run"
          "res' = (if run = [] then r else fst (returned (last run)))"
          "w4 = (if run = [] then left else world_after (last run))"
        by blast
      let ?run = "Attempt s start (r, out') left # run"
      have "attempt_run sf nr clip (filter is_valid (s # strs)) out w ?run"
        using True sf nr run(1) by (simp add: start_def)
      moreover have "calls = run_calls clip out ?run"
        using eq(2) run(2) by (simp add: removal_def)
      moreover have "res = fst (returned (last ?run))"
        using eq(1) run(3) by simp
      moreover have "w' = world_after (last ?run)"
        using eq(3) run(4) by simp
      ultimately show ?thesis
        by (intro exI [of _ ?run]) simp
    qed
  qed
qed

lemma attempt_run_unique:
  "attempt_run sf nr clip vs previous w run \<Longrightarrow> attempt_run sf nr clip vs previous w run' \<Longrightarrow>
     run = run'"
proof (induction vs arbitrary: previous w run run')
  case Nil
  then show ?case by simp
next
  case (Cons s vs)
  from Cons.prems(1) obtain a rest where "run = a # rest"
    by (cases run) auto
  moreover obtain s1 start r out left where "a = Attempt s1 start (r, out) left"
    by (cases a) (metis surj_pair)
  ultimately have a: "run = Attempt s start (r, out) left # rest"
    using Cons.prems(1) by auto
  from Cons.prems(2) obtain a' rest' where "run' = a' # rest'"
    by (cases run') auto
  moreover obtain s2 start' r' out' left' where "a' = Attempt s2 start' (r', out') left'"
    by (cases a') (metis surj_pair)
  ultimately have b: "run' = Attempt s start' (r', out') left' # rest'"
    using Cons.prems(2) by auto
  from Cons.prems a b have same: "start' = start" "r' = r" "out' = out" "left' = left"
    by auto
  show ?case
  proof (cases "nr r")
    case True
    with Cons.prems a b same have "attempt_run sf nr clip vs out left rest"
      "attempt_run sf nr clip vs out left rest'"
      by auto
    then have "rest = rest'" by (rule Cons.IH)
    with a b same show ?thesis by simp
  next
    case False
    with Cons.prems a b same show ?thesis by auto
  qed
qed

lemma attempt_run_first:
  "attempt_run sf nr clip vs previous w run \<Longrightarrow> run \<noteq> [] \<Longrightarrow>
     world_before (hd run) =
       logger DEBUG (''Now trying downloader '' @ name (candidate (hd run)))
         (if truthy previous then remove_retry_file previous w else w)"
  by (induction sf nr clip vs previous w run rule: attempt_run.induct) auto

lemma attempt_run_next:
  "attempt_run sf nr clip vs previous w run \<Longrightarrow> Suc i < length run \<Longrightarrow>
     world_before (run ! Suc i) =
       logger DEBUG (''Now trying downloader '' @ name (candidate (run ! Suc i)))
         (if truthy (snd (returned (run ! i)))
          then remove_retry_file (snd (returned (run ! i))) (world_after (run ! i))
          else world_after (run ! i))"
proof (induction sf nr clip vs previous w run arbitrary: i rule: attempt_run.induct)
  case (3 sf nr clip s later previous w s' start r out left run)
  show ?case
  proof (cases "nr r")
    case False
    with "3.prems" show ?thesis by simp
  next
    case True
    with "3.prems" have rest: "attempt_run sf nr clip later out left run" by simp
    show ?thesis
    proof (cases i)
      case 0
      with "3.prems" have "run \<noteq> []" by auto
      from attempt_run_first [OF rest this] 0 \<open>run \<noteq> []\<close> show ?thesis
        by (simp add: hd_conv_nth)
    next
      case (Suc j)
      with "3.prems" have "Suc j < length run" by simp
      from "3.IH" [OF True rest this] Suc show ?thesis by simp
    qed
  qed
qed simp_all

lemma attempt_run_transfer:
  "attempt_run sf nr clip vs previous w run \<Longrightarrow> i < length run \<Longrightarrow>
     sf clip (candidate (run ! i)) (world_before (run ! i)) = (returned (run ! i), world_after (run ! i))"
proof (induction sf nr clip vs previous w run arbitrary: i rule: attempt_run.induct)
  case (3 sf nr clip s later previous w s' start r out left run)
  show ?case
  proof (cases i)
    case 0
    with "3.prems" show ?thesis by auto
  next
    case (Suc j)
    with "3.prems" have "run \<noteq> []" by auto
    with "3.prems" have nr: "nr r" by (auto split: if_splits)
    with "3.prems" have rest: "attempt_run sf nr clip later out left run" by simp
    from "3.prems" Suc have "j < length run" by simp
    from "3.IH" [OF nr rest this] Suc show ?thesis by simp
  qed
qed simp_all

lemma files_logger: "files (logger lvl msg w) = files w"
  by (simp add: logger_def)

lemma removed_unless_protected:
  "p \<noteq> [] \<Longrightarrow> p \<notin> protected v \<Longrightarrow> p \<notin> files (remove_retry_file (Some p) v)"
  by (simp add: remove_retry_file_def os_path_isfile_def os_remove_def logger_def)

lemma try_all_streams_none_valid:
  "list_all (\<lambda>s. \<not> is_valid s) strs \<Longrightarrow> try_all_streams sf clip strs nr w = (RD_FAILED, [], w)"
  unfolding try_all_streams_def
  by (induction strs) simp_all

lemma try_all_streams_first_final:
  assumes "list_all (\<lambda>s. \<not> is_valid s) skipped" "is_valid s"
    and "sf clip s (logger DEBUG (''Now trying downloader '' @ name s) w) = ((r, out), left)"
    and "\<not> nr r"
  shows "try_all_streams sf clip (skipped @ s # rest) nr w = (r, [Streamfunc clip s (r, out)], left)"
  using assms unfolding try_all_streams_def
  by (induction skipped) simp_all

text \<open>
  C4. A run of \<open>try_all_streams\<close> is the same run on the valid candidates alone: invalid
  candidates add no call and change neither result nor world. Its calls are those of the
  attempts on the valid candidates, where every attempt records what the transfer
  function returned in the world it was invoked in; the result is the result of the last
  attempt and the final world the one that attempt left, so nothing follows an attempt
  whose result is not retryable. Without a valid candidate the result is \<open>RD_FAILED\<close>,
  with no call and the world unchanged. When the first valid candidate returns a result
  that is not retryable, the run returns it with this single transfer, whatever follows
  in the list. The handles tried are an initial part of the valid candidates; every
  attempt but the last returned a retryable result; and when the last attempt is
  retryable too, every valid candidate was tried.
\<close>

theorem try_all_streams_attempts:
  assumes run: "try_all_streams sf clip strs nr w = (res, calls, w')"
  shows "try_all_streams sf clip (filter is_valid strs) nr w = (res, calls, w') \<and>
         (\<exists>run. attempt_run sf nr clip (filter is_valid strs) None w run \<and>
                calls = run_calls clip None run \<and>
                res = (if run = [] then RD_FAILED else fst (returned (last run))) \<and>
                w' = (if run = [] then w else world_after (last run)) \<and>
                (\<forall>i < length run.
                   sf clip (candidate (run ! i)) (world_before (run ! i)) =
                     (returned (run ! i), world_after (run ! i)))) \<and>
         (list_all (\<lambda>s. \<not> is_valid s) strs \<longrightarrow> res = RD_FAILED \<and> calls = [] \<and> w' = w) \<and>
         (list_all (\<lambda>s. \<not> is_valid s) skipped \<and> is_valid s \<and> \<not> nr r \<and>
          sf clip s (logger DEBUG (''Now trying downloader '' @ name s) w) = ((r, out), left) \<longrightarrow>
            try_all_streams sf clip (skipped @ s # rest) nr w =
              (r, [Streamfunc clip s (r, out)], left)) \<and>
         (\<exists>untried. filter is_valid strs = map fst (attempts calls) @ untried) \<and>
         (\<forall>a \<in> set (butlast (attempts calls)). nr (fst (snd a))) \<and>
         (attempts calls = [] \<longrightarrow> res = RD_FAILED \<and> filter is_valid strs = []) \<and>
         (attempts calls \<noteq> [] \<longrightarrow> res = fst (snd (last (attempts calls)))) \<and>
         (attempts calls \<noteq> [] \<and> nr (fst (snd (last (attempts calls)))) \<longrightarrow>
            map fst (attempts calls) = filter is_valid strs)"
proof -
  have skip: "try_all_streams sf clip (filter is_valid strs) nr w = (res, calls, w')"
    using run by (simp add: try_all_streams_def try_all_loop_skips_invalid)
  have loop: "try_all_loop sf nr clip strs RD_FAILED None w = (res, calls, w')"
    using run by (simp add: try_all_streams_def)
  from try_all_loop_run [OF loop] obtain run where
    r: "attempt_run sf nr clip (filter is_valid strs) None w run"
      "calls = run_calls clip None run"
      "res = (if run = [] then RD_FAILED else fst (returned (last run)))"
      "w' = (if run = [] then w else world_after (last run))"
    by blast
  have "\<forall>i < length run.
      sf clip (candidate (run ! i)) (world_before (run ! i)) =
        (returned (run ! i), world_after (run ! i))"
    using attempt_run_transfer [OF r(1)] by blast
  with r have ex: "\<exists>run. attempt_run sf nr clip (filter is_valid strs) None w run \<and>
                calls = run_calls clip None run \<and>
                res = (if run = [] then RD_FAILED else fst (returned (last run))) \<and>
                w' = (if run = [] then w else world_after (last run)) \<and>
                (\<forall>i < length run.
                   sf clip (candidate (run ! i)) (world_before (run ! i)) =
                     (returned (run ! i), world_after (run ! i)))"
    by blast
  have none: "list_all (\<lambda>s. \<not> is_valid s) strs \<longrightarrow> res = RD_FAILED \<and> calls = [] \<and> w' = w"
    using run try_all_streams_none_valid [of strs sf clip nr w] by auto
  have final: "list_all (\<lambda>s. \<not> is_valid s) skipped \<and> is_valid s \<and> \<not> nr r \<and>
          sf clip s (logger DEBUG (''Now trying downloader '' @ name s) w) = ((r, out), left) \<longrightarrow>
            try_all_streams sf clip (skipped @ s # rest) nr w =
              (r, [Streamfunc clip s (r, out)], left)"
    using try_all_streams_first_final [of skipped s sf clip w r out left nr rest] by blast
  note old = try_all_loop_attempts [OF loop]
  from skip ex none final old show ?thesis by (intro conjI) blast+
qed

theorem try_all_streams_attempts_witness:
  "try_all_streams flaky_transfer (test_clip ''1-1'' [])
       [invalid_stream ''gone'', backend ''wget'', backend ''ffmpeg'', backend ''rtmpdump'']
       needs_retry_download empty_world =
     (RD_SUCCESS,
      [Streamfunc (test_clip ''1-1'' []) (backend ''wget'') (RD_FAILED, Some ''clip.mp4''),
       Remove_retry_file (Some ''clip.mp4''),
       Streamfunc (test_clip ''1-1'' []) (backend ''ffmpeg'') (RD_SUCCESS, Some ''clip.mp4'')],
      \<lparr>files = {''clip.mp4''}, others = {}, protected = {},
       logged = [(DEBUG, ''Now trying downloader wget''),
                 (DEBUG, ''Removing the partially downloaded file''),
                 (DEBUG, ''Now trying downloader ffmpeg'')]\<rparr>) \<and>
   try_all_streams flaky_transfer (test_clip ''1-1'' [])
       (filter is_valid
          [invalid_stream ''gone'', backend ''wget'', backend ''ffmpeg'', backend ''rtmpdump''])
       needs_retry_download empty_world =
     (RD_SUCCESS,
      [Streamfunc (test_clip ''1-1'' []) (backend ''wget'') (RD_FAILED, Some ''clip.mp4''),
       Remove_retry_file (Some ''clip.mp4''),
       Streamfunc (test_clip ''1-1'' []) (backend ''ffmpeg'') (RD_SUCCESS, Some ''clip.mp4'')],
      \<lparr>files = {''clip.mp4''}, others = {}, protected = {},
       logged = [(DEBUG, ''Now trying downloader wget''),
                 (DEBUG, ''Removing the partially downloaded file''),
                 (DEBUG, ''Now trying downloader ffmpeg'')]\<rparr>) \<and>
   try_all_streams flaky_transfer (test_clip ''1-1'' [])
       [invalid_stream ''gone'', invalid_stream ''expired''] needs_retry_download empty_world =
     (RD_FAILED, [], empty_world) \<and>
   filter is_valid [invalid_stream ''gone'', invalid_stream ''expired''] = [] \<and>
   try_all_streams flaky_transfer (test_clip ''1-1'' [])
       [backend ''wget'', invalid_stream ''gone'', backend ''rtmpdump''] needs_retry_download empty_world =
     (RD_FAILED,
      [Streamfunc (test_clip ''1-1'' []) (backend ''wget'') (RD_FAILED, Some ''clip.mp4''),
       Remove_retry_file (Some ''clip.mp4''),
       Streamfunc (test_clip ''1-1'' []) (backend ''rtmpdump'') (RD_FAILED, Some ''clip.mp4'')],
      \<lparr>files = {''clip.mp4''}, others = {}, protected = {},
       logged = [(DEBUG, ''Now trying downloader wget''),
                 (DEBUG, ''Removing the partially downloaded file''),
                 (DEBUG, ''Now trying downloader rtmpdump'')]\<rparr>) \<and>
   map fst (attempts
      [Streamfunc (test_clip ''1-1'' []) (backend ''wget'') (RD_FAILED, Some ''clip.mp4''),
       Remove_retry_file (Some ''clip.mp4''),
       Streamfunc (test_clip ''1-1'' []) (backend ''rtmpdump'') (RD_FAILED, Some ''clip.mp4'')]) =
     filter is_valid [backend ''wget'', invalid_stream ''gone'', backend ''rtmpdump''] \<and>
   try_all_streams flaky_transfer (test_clip ''1-1'' [])
       ([invalid_stream ''gone''] @ backend ''ffmpeg'' # [backend ''wget''])
       needs_retry_download empty_world =
     (RD_SUCCESS,
      [Streamfunc (test_clip ''1-1'' []) (backend ''ffmpeg'') (RD_SUCCESS, Some ''clip.mp4'')],
      \<lparr>files = {''clip.mp4''}, others = {}, protected = {},
       logged = [(DEBUG, ''Now trying downloader ffmpeg'')]\<rparr>) \<and>
   attempt_run flaky_transfer needs_retry_download (test_clip ''1-1'' [])
       (filter is_valid
          [invalid_stream ''gone'', backend ''wget'', backend ''ffmpeg'', backend ''rtmpdump''])
       None empty_world
     [Attempt (backend ''wget'')
        \<lparr>files = {}, others = {}, protected = {},
         logged = [(DEBUG, ''Now trying downloader wget'')]\<rparr>
        (RD_FAILED, Some ''clip.mp4'')
        \<lparr>files = {''clip.mp4''}, others = {}, protected = {},
         logged = [(DEBUG, ''Now trying downloader wget'')]\<rparr>,
      Attempt (backend ''ffmpeg'')
        \<lparr>files = {}, others = {}, protected = {},
         logged = [(DEBUG, ''Now trying downloader wget''),
                   (DEBUG, ''Removing the partially downloaded file''),
                   (DEBUG, ''Now trying downloader ffmpeg'')]\<rparr>
        (RD_SUCCESS, Some ''clip.mp4'')
        \<lparr>files = {''clip.mp4''}, others = {}, protected = {},
         logged = [(DEBUG, ''Now trying downloader wget''),
                   (DEBUG, ''Removing the partially downloaded file''),
                   (DEBUG, ''Now trying downloader ffmpeg'')]\<rparr>]"
proof -
  let ?c = "test_clip ''1-1'' []"
  let ?w = "\<lparr>files = {''clip.mp4''}, others = {}, protected = {},
       logged = [(DEBUG, ''Now trying downloader wget''),
                 (DEBUG, ''Removing the partially downloaded file''),
                 (DEBUG, ''Now trying downloader ffmpeg'')]\<rparr>"
  let ?w' = "\<lparr>files = {''clip.mp4''}, others = {}, protected = {},
       logged = [(DEBUG, ''Now trying downloader wget''),
                 (DEBUG, ''Removing the partially downloaded file''),
                 (DEBUG, ''Now trying downloader rtmpdump'')]\<rparr>"
  have a: "try_all_streams flaky_transfer ?c
       [invalid_stream ''gone'', backend ''wget'', backend ''ffmpeg'', backend ''rtmpdump'']
       needs_retry_download empty_world =
     (RD_SUCCESS,
      [Streamfunc ?c (backend ''wget'') (RD_FAILED, Some ''clip.mp4''),
       Remove_retry_file (Some ''clip.mp4''),
       Streamfunc ?c (backend ''ffmpeg'') (RD_SUCCESS, Some ''clip.mp4'')], ?w)"
    by (simp add: retry_defs world_defs)
  have b: "try_all_streams flaky_transfer ?c
       [invalid_stream ''gone'', invalid_stream ''expired''] needs_retry_download empty_world =
     (RD_FAILED, [], empty_world)"
    by (simp add: retry_defs world_defs)
  have c: "try_all_streams flaky_transfer ?c
       [backend ''wget'', invalid_stream ''gone'', backend ''rtmpdump''] needs_retry_download empty_world =
     (RD_FAILED,
      [Streamfunc ?c (backend ''wget'') (RD_FAILED, Some ''clip.mp4''),
       Remove_retry_file (Some ''clip.mp4''),
       Streamfunc ?c (backend ''rtmpdump'') (RD_FAILED, Some ''clip.mp4'')], ?w')"
    by (simp add: retry_defs world_defs)
  have c': "attempts
      [Streamfunc ?c (backend ''wget'') (RD_FAILED, Some ''clip.mp4''),
       Remove_retry_file (Some ''clip.mp4''),
       Streamfunc ?c (backend ''rtmpdump'') (RD_FAILED, Some ''clip.mp4'')] \<noteq> [] \<and>
     needs_retry_download (fst (snd (last (attempts
      [Streamfunc ?c (backend ''wget'') (RD_FAILED, Some ''clip.mp4''),
       Remove_retry_file (Some ''clip.mp4''),
       Streamfunc ?c (backend ''rtmpdump'') (RD_FAILED, Some ''clip.mp4'')]))))"
    by (simp add: needs_retry_download_def)
  have b': "attempts [] = []" by simp
  note A = try_all_streams_attempts [OF a, where skipped = "[invalid_stream ''gone'']"
      and s = "backend ''ffmpeg''" and rest = "[backend ''wget'']" and r = RD_SUCCESS
      and out = "Some ''clip.mp4''"
      and left = "\<lparr>files = {''clip.mp4''}, others = {}, protected = {},
                    logged = [(DEBUG, ''Now trying downloader ffmpeg'')]\<rparr>"]
  note B = try_all_streams_attempts [OF b]
  note C = try_all_streams_attempts [OF c]
  have a2: "try_all_streams flaky_transfer ?c
       (filter is_valid
          [invalid_stream ''gone'', backend ''wget'', backend ''ffmpeg'', backend ''rtmpdump''])
       needs_retry_download empty_world =
     (RD_SUCCESS,
      [Streamfunc ?c (backend ''wget'') (RD_FAILED, Some ''clip.mp4''),
       Remove_retry_file (Some ''clip.mp4''),
       Streamfunc ?c (backend ''ffmpeg'') (RD_SUCCESS, Some ''clip.mp4'')], ?w)"
    by (rule A [THEN conjunct1])
  have d: "try_all_streams flaky_transfer ?c
       ([invalid_stream ''gone''] @ backend ''ffmpeg'' # [backend ''wget''])
       needs_retry_download empty_world =
     (RD_SUCCESS,
      [Streamfunc ?c (backend ''ffmpeg'') (RD_SUCCESS, Some ''clip.mp4'')],
      \<lparr>files = {''clip.mp4''}, others = {}, protected = {},
       logged = [(DEBUG, ''Now trying downloader ffmpeg'')]\<rparr>)"
    by (rule A [THEN conjunct2, THEN conjunct2, THEN conjunct2, THEN conjunct1, THEN mp])
      (simp add: retry_defs world_defs)
  have b2: "filter is_valid [invalid_stream ''gone'', invalid_stream ''expired''] = []"
    using B [THEN conjunct2, THEN conjunct2, THEN conjunct2, THEN conjunct2, THEN conjunct2,
        THEN conjunct2, THEN conjunct1] b'
    by simp
  have c2: "map fst (attempts
      [Streamfunc ?c (backend ''wget'') (RD_FAILED, Some ''clip.mp4''),
       Remove_retry_file (Some ''clip.mp4''),
       Streamfunc ?c (backend ''rtmpdump'') (RD_FAILED, Some ''clip.mp4'')]) =
     filter is_valid [backend ''wget'', invalid_stream ''gone'', backend ''rtmpdump'']"
    by (rule C [THEN conjunct2, THEN conjunct2, THEN conjunct2, THEN conjunct2, THEN conjunct2,
        THEN conjunct2, THEN conjunct2, THEN conjunct2, THEN mp]) (rule c')
  have e: "attempt_run flaky_transfer needs_retry_download ?c
       (filter is_valid
          [invalid_stream ''gone'', backend ''wget'', backend ''ffmpeg'', backend ''rtmpdump''])
       None empty_world
     [Attempt (backend ''wget'')
        \<lparr>files = {}, others = {}, protected = {},
         logged = [(DEBUG, ''Now trying downloader wget'')]\<rparr>
        (RD_FAILED, Some ''clip.mp4'')
        \<lparr>files = {''clip.mp4''}, others = {}, protected = {},
         logged = [(DEBUG, ''Now trying downloader wget'')]\<rparr>,
      Attempt (backend ''ffmpeg'')
        \<lparr>files = {}, others = {}, protected = {},
         logged = [(DEBUG, ''Now trying downloader wget''),
                   (DEBUG, ''Removing the partially downloaded file''),
                   (DEBUG, ''Now trying downloader ffmpeg'')]\<rparr>
        (RD_SUCCESS, Some ''clip.mp4'') ?w]"
    by (simp add: retry_defs world_defs)
  from a a2 b b2 c c2 d e show ?thesis by (intro conjI)
qed

subsection \<open>Order of transfers and removals\<close>

lemma cleanup_after_transfer:
  "cleanup_ordered (Streamfunc c0 s0 (r0, out) # fst (snd (try_all_loop sf nr clip strs latest out w)))"
proof (induction strs arbitrary: c0 s0 r0 latest out w)
  case Nil
  show ?case by simp
next
  case (Cons s strs)
  show ?case
  proof (cases "is_valid s")
    case False
    with Cons.IH show ?thesis by simp
  next
    case True
    define w2 where "w2 = logger DEBUG (''Now trying downloader '' @ name s)
        (if truthy out then remove_retry_file out w else w)"
    obtain r out' w3 where sf: "sf clip s w2 = ((r, out'), w3)"
      by (metis surj_pair)
    let ?later = "if nr r then fst (snd (try_all_loop sf nr clip strs r out' w3)) else []"
    have calls: "fst (snd (try_all_loop sf nr clip (s # strs) latest out w)) =
        (if truthy out then [Remove_retry_file out] else []) @ Streamfunc clip s (r, out') # ?later"
      using True sf by (auto simp: w2_def Let_def split: prod.splits)
    have "cleanup_ordered (Streamfunc clip s (r, out') # ?later)"
      using Cons.IH [of clip s r out' r w3] by simp
    then show ?thesis
      unfolding calls by simp
  qed
qed

lemma cleanup_try_all_loop:
  "cleanup_ordered (fst (snd (try_all_loop sf nr clip strs latest None w)))"
proof (induction strs)
  case Nil
  show ?case by simp
next
  case (Cons s strs)
  show ?case
  proof (cases "is_valid s")
    case False
    with Cons.IH show ?thesis by simp
  next
    case True
    define w2 where "w2 = logger DEBUG (''Now trying downloader '' @ name s) w"
    obtain r out' w3 where sf: "sf clip s w2 = ((r, out'), w3)"
      by (metis surj_pair)
    let ?later = "if nr r then fst (snd (try_all_loop sf nr clip strs r out' w3)) else []"
    have calls: "fst (snd (try_all_loop sf nr clip (s # strs) latest None w)) =
        Streamfunc clip s (r, out') # ?later"
      using True sf by (auto simp: w2_def Let_def split: prod.splits)
    show ?thesis
      unfolding calls using cleanup_after_transfer [of clip s r out' sf nr clip strs r w3]
      by simp
  qed
qed

lemma remove_retry_file_removes:
  assumes "p \<noteq> []" "p \<in> files w" "p \<notin> protected w"
  shows "remove_retry_file (Some p) w =
           (logger DEBUG ''Removing the partially downloaded file'' w)\<lparr>files := files w - {p}\<rparr>"
  using assms by (simp add: remove_retry_file_def os_path_isfile_def os_remove_def logger_def)

lemma remove_retry_file_fails:
  assumes "p \<noteq> []" "p \<in> files w" "p \<in> protected w"
  shows "remove_retry_file (Some p) w =
           logger WARNING ''Failed to remove a partial output file''
             (logger DEBUG ''Removing the partially downloaded file'' w)"
  using assms by (simp add: remove_retry_file_def os_path_isfile_def os_remove_def logger_def)

text \<open>
  C7. The calls of \<open>try_all_streams\<close> start and end with a transfer, and between two
  transfers the removal of the file reported by the earlier one is requested, exactly
  when it reported one: never before the first attempt and never after the last. In
  terms of the world: the first attempt starts in the initial world, with only the debug
  line added; attempt N+1 starts in the world that \<open>remove_retry_file\<close>, applied to the
  file reported by attempt N, makes of the world attempt N left, so that this file is no
  regular file any more when attempt N+1 starts, unless the operating system refuses to
  remove it; and the final world is the one the last attempt left. With three valid
  candidates, of which the first two report a file and a retryable result and the third
  a result that is not retryable, there are exactly three transfers, each of the first
  two followed by the removal of its file, and the final world is the one the third
  transfer left. A removal takes the file away; when the operating system refuses, the
  file stays, a warning is logged and the run goes on.
\<close>

theorem try_all_streams_cleanup:
  "cleanup_ordered (fst (snd (try_all_streams sf clip strs nr w))) \<and>
   (try_all_streams sf clip strs nr w = (res, calls, w') \<longrightarrow>
      (\<exists>run. attempt_run sf nr clip (filter is_valid strs) None w run \<and>
             calls = run_calls clip None run \<and>
             res = (if run = [] then RD_FAILED else fst (returned (last run))) \<and>
             w' = (if run = [] then w else world_after (last run)) \<and>
             (run \<noteq> [] \<longrightarrow>
                world_before (hd run) =
                  logger DEBUG (''Now trying downloader '' @ name (candidate (hd run))) w) \<and>
             (\<forall>i. Suc i < length run \<longrightarrow>
                world_before (run ! Suc i) =
                  logger DEBUG (''Now trying downloader '' @ name (candidate (run ! Suc i)))
                    (if truthy (snd (returned (run ! i)))
                     then remove_retry_file (snd (returned (run ! i))) (world_after (run ! i))
                     else world_after (run ! i))) \<and>
             (\<forall>i < length run.
                sf clip (candidate (run ! i)) (world_before (run ! i)) =
                  (returned (run ! i), world_after (run ! i))) \<and>
             (\<forall>i p. Suc i < length run \<and> snd (returned (run ! i)) = Some p \<and> p \<noteq> [] \<and>
                    p \<notin> protected (world_after (run ! i)) \<longrightarrow>
                p \<notin> files (world_before (run ! Suc i))))) \<and>
   (is_valid s1 \<and> is_valid s2 \<and> is_valid s3 \<and>
    sf clip s1 (logger DEBUG (''Now trying downloader '' @ name s1) w) = ((r1, Some f1), w1) \<and>
    sf clip s2 (logger DEBUG (''Now trying downloader '' @ name s2)
                  (remove_retry_file (Some f1) w1)) = ((r2, Some f2), w2) \<and>
    sf clip s3 (logger DEBUG (''Now trying downloader '' @ name s3)
                  (remove_retry_file (Some f2) w2)) = ((r3, f3), w3) \<and>
    f1 \<noteq> [] \<and> f2 \<noteq> [] \<and> nr r1 \<and> nr r2 \<and> \<not> nr r3 \<longrightarrow>
      try_all_streams sf clip [s1, s2, s3] nr w =
        (r3,
         [Streamfunc clip s1 (r1, Some f1), Remove_retry_file (Some f1),
          Streamfunc clip s2 (r2, Some f2), Remove_retry_file (Some f2),
          Streamfunc clip s3 (r3, f3)],
         w3)) \<and>
   (p \<noteq> [] \<and> p \<in> files v \<and> p \<notin> protected v \<longrightarrow>
      remove_retry_file (Some p) v =
        (logger DEBUG ''Removing the partially downloaded file'' v)\<lparr>files := files v - {p}\<rparr>) \<and>
   (p \<noteq> [] \<and> p \<in> files v \<and> p \<in> protected v \<longrightarrow>
      remove_retry_file (Some p) v =
        logger WARNING ''Failed to remove a partial output file''
          (logger DEBUG ''Removing the partially downloaded file'' v))"
proof (intro conjI impI)
  show "cleanup_ordered (fst (snd (try_all_streams sf clip strs nr w)))"
    unfolding try_all_streams_def by (rule cleanup_try_all_loop)
next
  assume "try_all_streams sf clip strs nr w = (res, calls, w')"
  then have "try_all_loop sf nr clip strs RD_FAILED None w = (res, calls, w')"
    by (simp add: try_all_streams_def)
  from try_all_loop_run [OF this] obtain run where
    r: "attempt_run sf nr clip (filter is_valid strs) None w run"
      "calls = run_calls clip None run"
      "res = (if run = [] then RD_FAILED else fst (returned (last run)))"
      "w' = (if run = [] then w else world_after (last run))"
    by blast
  have first: "run \<noteq> [] \<longrightarrow>
      world_before (hd run) =
        logger DEBUG (''Now trying downloader '' @ name (candidate (hd run))) w"
    using attempt_run_first [OF r(1)] by simp
  have nxt: "world_before (run ! Suc i) =
        logger DEBUG (''Now trying downloader '' @ name (candidate (run ! Suc i)))
          (if truthy (snd (returned (run ! i)))
           then remove_retry_file (snd (returned (run ! i))) (world_after (run ! i))
           else world_after (run ! i))" if "Suc i < length run" for i
    using r(1) that by (rule attempt_run_next)
  have transfer: "\<forall>i < length run.
      sf clip (candidate (run ! i)) (world_before (run ! i)) =
        (returned (run ! i), world_after (run ! i))"
    using attempt_run_transfer [OF r(1)] by blast
  have gone: "p \<notin> files (world_before (run ! Suc i))"
    if "Suc i < length run \<and> snd (returned (run ! i)) = Some p \<and> p \<noteq> [] \<and>
        p \<notin> protected (world_after (run ! i))" for i p
    using that nxt [of i] removed_unless_protected [of p "world_after (run ! i)"]
    by (simp add: files_logger)
  from r first nxt transfer gone
  show "\<exists>run. attempt_run sf nr clip (filter is_valid strs) None w run \<and>
             calls = run_calls clip None run \<and>
             res = (if run = [] then RD_FAILED else fst (returned (last run))) \<and>
             w' = (if run = [] then w else world_after (last run)) \<and>
             (run \<noteq> [] \<longrightarrow>
                world_before (hd run) =
                  logger DEBUG (''Now trying downloader '' @ name (candidate (hd run))) w) \<and>
             (\<forall>i. Suc i < length run \<longrightarrow>
                world_before (run ! Suc i) =
                  logger DEBUG (''Now trying downloader '' @ name (candidate (run ! Suc i)))
                    (if truthy (snd (returned (run ! i)))
                     then remove_retry_file (snd (returned (run ! i))) (world_after (run ! i))
                     else world_after (run ! i))) \<and>
             (\<forall>i < length run.
                sf clip (candidate (run ! i)) (world_before (run ! i)) =
                  (returned (run ! i), world_after (run ! i))) \<and>
             (\<forall>i p. Suc i < length run \<and> snd (returned (run ! i)) = Some p \<and> p \<noteq> [] \<and>
                    p \<notin> protected (world_after (run ! i)) \<longrightarrow>
                p \<notin> files (world_before (run ! Suc i)))"
    by (intro exI [of _ run] conjI allI impI) blast+
next
  assume "is_valid s1 \<and> is_valid s2 \<and> is_valid s3 \<and>
    sf clip s1 (logger DEBUG (''Now trying downloader '' @ name s1) w) = ((r1, Some f1), w1) \<and>
    sf clip s2 (logger DEBUG (''Now trying downloader '' @ name s2)
                  (remove_retry_file (Some f1) w1)) = ((r2, Some f2), w2) \<and>
    sf clip s3 (logger DEBUG (''Now trying downloader '' @ name s3)
                  (remove_retry_file (Some f2) w2)) = ((r3, f3), w3) \<and>
    f1 \<noteq> [] \<and> f2 \<noteq> [] \<and> nr r1 \<and> nr r2 \<and> \<not> nr r3"
  then show "try_all_streams sf clip [s1, s2, s3] nr w =
        (r3,
         [Streamfunc clip s1 (r1, Some f1), Remove_retry_file (Some f1),
          Streamfunc clip s2 (r2, Some f2), Remove_retry_file (Some f2),
          Streamfunc clip s3 (r3, f3)],
         w3)"
    by (simp add: try_all_streams_def)
next
  assume "p \<noteq> [] \<and> p \<in> files v \<and> p \<notin> protected v"
  then show "remove_retry_file (Some p) v =
        (logger DEBUG ''Removing the partially downloaded file'' v)\<lparr>files := files v - {p}\<rparr>"
    by (simp add: remove_retry_file_removes)
next
  assume "p \<noteq> [] \<and> p \<in> files v \<and> p \<in> protected v"
  then show "remove_retry_file (Some p) v =
        logger WARNING ''Failed to remove a partial output file''
          (logger DEBUG ''Removing the partially downloaded file'' v)"
    by (simp add: remove_retry_file_fails)
qed

theorem try_all_streams_cleanup_witness:
  "try_all_streams flaky_transfer (test_clip ''1-1'' [])
       [backend ''wget'', backend ''rtmpdump'', backend ''ffmpeg''] needs_retry_download empty_world =
     (RD_SUCCESS,
      [Streamfunc (test_clip ''1-1'' []) (backend ''wget'') (RD_FAILED, Some ''clip.mp4''),
       Remove_retry_file (Some ''clip.mp4''),
       Streamfunc (test_clip ''1-1'' []) (backend ''rtmpdump'') (RD_FAILED, Some ''clip.mp4''),
       Remove_retry_file (Some ''clip.mp4''),
       Streamfunc (test_clip ''1-1'' []) (backend ''ffmpeg'') (RD_SUCCESS, Some ''clip.mp4'')],
      \<lparr>files = {''clip.mp4''}, others = {}, protected = {},
       logged = [(DEBUG, ''Now trying downloader wget''),
                 (DEBUG, ''Removing the partially downloaded file''),
                 (DEBUG, ''Now trying downloader rtmpdump''),
                 (DEBUG, ''Removing the partially downloaded file''),
                 (DEBUG, ''Now trying downloader ffmpeg'')]\<rparr>) \<and>
   cleanup_ordered (fst (snd (try_all_streams flaky_transfer (test_clip ''1-1'' [])
       [backend ''wget'', backend ''rtmpdump'', backend ''ffmpeg''] needs_retry_download empty_world))) \<and>
   try_all_streams flaky_transfer (test_clip ''1-1'' [])
       [backend ''wget'', backend ''rtmpdump'', backend ''ffmpeg''] needs_retry_download locked_world =
     (RD_SUCCESS,
      [Streamfunc (test_clip ''1-1'' []) (backend ''wget'') (RD_FAILED, Some ''clip.mp4''),
       Remove_retry_file (Some ''clip.mp4''),
       Streamfunc (test_clip ''1-1'' []) (backend ''rtmpdump'') (RD_FAILED, Some ''clip.mp4''),
       Remove_retry_file (Some ''clip.mp4''),
       Streamfunc (test_clip ''1-1'' []) (backend ''ffmpeg'') (RD_SUCCESS, Some ''clip.mp4'')],
      \<lparr>files = {''clip.mp4''}, others = {}, protected = {''clip.mp4''},
       logged = [(DEBUG, ''Now trying downloader wget''),
                 (DEBUG, ''Removing the partially downloaded file''),
                 (WARNING, ''Failed to remove a partial output file''),
                 (DEBUG, ''Now trying downloader rtmpdump''),
                 (DEBUG, ''Removing the partially downloaded file''),
                 (WARNING, ''Failed to remove a partial output file''),
                 (DEBUG, ''Now trying downloader ffmpeg'')]\<rparr>) \<and>
   remove_retry_file (Some ''clip.mp4'')
       \<lparr>files = {''clip.mp4''}, others = {}, protected = {}, logged = []\<rparr> =
     \<lparr>files = {}, others = {}, protected = {},
      logged = [(DEBUG, ''Removing the partially downloaded file'')]\<rparr> \<and>
   remove_retry_file (Some ''clip.mp4'')
       \<lparr>files = {''clip.mp4''}, others = {}, protected = {''clip.mp4''}, logged = []\<rparr> =
     \<lparr>files = {''clip.mp4''}, others = {}, protected = {''clip.mp4''},
      logged = [(DEBUG, ''Removing the partially downloaded file''),
                (WARNING, ''Failed to remove a partial output file'')]\<rparr> \<and>
   attempt_run flaky_transfer needs_retry_download (test_clip ''1-1'' [])
       (filter is_valid [backend ''wget'', backend ''rtmpdump'', backend ''ffmpeg''])
       None empty_world
     [Attempt (backend ''wget'')
        \<lparr>files = {}, others = {}, protected = {},
         logged = [(DEBUG, ''Now trying downloader wget'')]\<rparr>
        (RD_FAILED, Some ''clip.mp4'')
        \<lparr>files = {''clip.mp4''}, others = {}, protected = {},
         logged = [(DEBUG, ''Now trying downloader wget'')]\<rparr>,
      Attempt (backend ''rtmpdump'')
        \<lparr>files = {}, others = {}, protected = {},
         logged = [(DEBUG, ''Now trying downloader wget''),
                   (DEBUG, ''Removing the partially downloaded file''),
                   (DEBUG, ''Now trying downloader rtmpdump'')]\<rparr>
        (RD_FAILED, Some ''clip.mp4'')
        \<lparr>files = {''clip.mp4''}, others = {}, protected = {},
         logged = [(DEBUG, ''Now trying downloader wget''),
                   (DEBUG, ''Removing the partially downloaded file''),
                   (DEBUG, ''Now trying downloader rtmpdump'')]\<rparr>,
      Attempt (backend ''ffmpeg'')
        \<lparr>files = {}, others = {}, protected = {},
         logged = [(DEBUG, ''Now trying downloader wget''),
                   (DEBUG, ''Removing the partially downloaded file''),
                   (DEBUG, ''Now trying downloader rtmpdump''),
                   (DEBUG, ''Removing the partially downloaded file''),
                   (DEBUG, ''Now trying downloader ffmpeg'')]\<rparr>
        (RD_SUCCESS, Some ''clip.mp4'')
        \<lparr>files = {''clip.mp4''}, others = {}, protected = {},
         logged = [(DEBUG, ''Now trying downloader wget''),
                   (DEBUG, ''Removing the partially downloaded file''),
                   (DEBUG, ''Now trying downloader rtmpdump''),
                   (DEBUG, ''Removing the partially downloaded file''),
                   (DEBUG, ''Now trying downloader ffmpeg'')]\<rparr>] \<and>
   (\<exists>run. attempt_run flaky_transfer needs_retry_download (test_clip ''1-1'' [])
            (filter is_valid [backend ''wget'', backend ''rtmpdump'', backend ''ffmpeg''])
            None empty_world run \<and>
          [Streamfunc (test_clip ''1-1'' []) (backend ''wget'') (RD_FAILED, Some ''clip.mp4''),
           Remove_retry_file (Some ''clip.mp4''),
           Streamfunc (test_clip ''1-1'' []) (backend ''rtmpdump'') (RD_FAILED, Some ''clip.mp4''),
           Remove_retry_file (Some ''clip.mp4''),
           Streamfunc (test_clip ''1-1'' []) (backend ''ffmpeg'') (RD_SUCCESS, Some ''clip.mp4'')] =
            run_calls (test_clip ''1-1'' []) None run)"
proof -
  let ?c = "test_clip ''1-1'' []"
  let ?strs = "[backend ''wget'', backend ''rtmpdump'', backend ''ffmpeg'']"
  let ?w1 = "\<lparr>files = {''clip.mp4''}, others = {}, protected = {},
       logged = [(DEBUG, ''Now trying downloader wget'')]\<rparr>"
  let ?w2 = "\<lparr>files = {''clip.mp4''}, others = {}, protected = {},
       logged = [(DEBUG, ''Now trying downloader wget''),
                 (DEBUG, ''Removing the partially downloaded file''),
                 (DEBUG, ''Now trying downloader rtmpdump'')]\<rparr>"
  let ?w3 = "\<lparr>files = {''clip.mp4''}, others = {}, protected = {},
       logged = [(DEBUG, ''Now trying downloader wget''),
                 (DEBUG, ''Removing the partially downloaded file''),
                 (DEBUG, ''Now trying downloader rtmpdump''),
                 (DEBUG, ''Removing the partially downloaded file''),
                 (DEBUG, ''Now trying downloader ffmpeg'')]\<rparr>"
  let ?v1 = "\<lparr>files = {''clip.mp4''}, others = {}, protected = {''clip.mp4''},
       logged = [(DEBUG, ''Now trying downloader wget'')]\<rparr>"
  let ?v2 = "\<lparr>files = {''clip.mp4''}, others = {}, protected = {''clip.mp4''},
       logged = [(DEBUG, ''Now trying downloader wget''),
                 (DEBUG, ''Removing the partially downloaded file''),
                 (WARNING, ''Failed to remove a partial output file''),
                 (DEBUG, ''Now trying downloader rtmpdump'')]\<rparr>"
  let ?v3 = "\<lparr>files = {''clip.mp4''}, others = {}, protected = {''clip.mp4''},
       logged = [(DEBUG, ''Now trying downloader wget''),
                 (DEBUG, ''Removing the partially downloaded file''),
                 (WARNING, ''Failed to remove a partial output file''),
                 (DEBUG, ''Now trying downloader rtmpdump''),
                 (DEBUG, ''Removing the partially downloaded file''),
                 (WARNING, ''Failed to remove a partial output file''),
                 (DEBUG, ''Now trying downloader ffmpeg'')]\<rparr>"
  let ?p = "\<lparr>files = {''clip.mp4''}, others = {}, protected = {}, logged = []\<rparr>"
  let ?q = "\<lparr>files = {''clip.mp4''}, others = {}, protected = {''clip.mp4''}, logged = []\<rparr>"
  note free = try_all_streams_cleanup [where sf = flaky_transfer and clip = ?c and strs = ?strs
      and nr = needs_retry_download and w = empty_world
      and ?s1.0 = "backend ''wget''" and ?s2.0 = "backend ''rtmpdump''" and ?s3.0 = "backend ''ffmpeg''"
      and ?r1.0 = RD_FAILED and ?r2.0 = RD_FAILED and ?r3.0 = RD_SUCCESS
      and ?f1.0 = "''clip.mp4''" and ?f2.0 = "''clip.mp4''" and ?f3.0 = "Some ''clip.mp4''"
      and ?w1.0 = ?w1 and ?w2.0 = ?w2 and ?w3.0 = ?w3 and p = "''clip.mp4''" and v = ?p
      and res = RD_SUCCESS and w' = ?w3
      and calls = "[Streamfunc (test_clip ''1-1'' []) (backend ''wget'') (RD_FAILED, Some ''clip.mp4''),
           Remove_retry_file (Some ''clip.mp4''),
           Streamfunc (test_clip ''1-1'' []) (backend ''rtmpdump'') (RD_FAILED, Some ''clip.mp4''),
           Remove_retry_file (Some ''clip.mp4''),
           Streamfunc (test_clip ''1-1'' []) (backend ''ffmpeg'') (RD_SUCCESS, Some ''clip.mp4'')]"]
  note locked = try_all_streams_cleanup [where sf = flaky_transfer and clip = ?c and strs = ?strs
      and nr = needs_retry_download and w = locked_world
      and ?s1.0 = "backend ''wget''" and ?s2.0 = "backend ''rtmpdump''" and ?s3.0 = "backend ''ffmpeg''"
      and ?r1.0 = RD_FAILED and ?r2.0 = RD_FAILED and ?r3.0 = RD_SUCCESS
      and ?f1.0 = "''clip.mp4''" and ?f2.0 = "''clip.mp4''" and ?f3.0 = "Some ''clip.mp4''"
      and ?w1.0 = ?v1 and ?w2.0 = ?v2 and ?w3.0 = ?v3 and p = "''clip.mp4''" and v = ?q]
  have run: "try_all_streams flaky_transfer ?c ?strs needs_retry_download empty_world =
     (RD_SUCCESS,
      [Streamfunc ?c (backend ''wget'') (RD_FAILED, Some ''clip.mp4''),
       Remove_retry_file (Some ''clip.mp4''),
       Streamfunc ?c (backend ''rtmpdump'') (RD_FAILED, Some ''clip.mp4''),
       Remove_retry_file (Some ''clip.mp4''),
       Streamfunc ?c (backend ''ffmpeg'') (RD_SUCCESS, Some ''clip.mp4'')], ?w3)"
    by (rule free [THEN conjunct2, THEN conjunct2, THEN conjunct1, THEN mp])
      (simp add: flaky_transfer_def backend_def needs_retry_download_def world_defs)
  have ordered: "cleanup_ordered (fst (snd (try_all_streams flaky_transfer ?c ?strs
      needs_retry_download empty_world)))"
    by (rule free [THEN conjunct1])
  have run': "try_all_streams flaky_transfer ?c ?strs needs_retry_download locked_world =
     (RD_SUCCESS,
      [Streamfunc ?c (backend ''wget'') (RD_FAILED, Some ''clip.mp4''),
       Remove_retry_file (Some ''clip.mp4''),
       Streamfunc ?c (backend ''rtmpdump'') (RD_FAILED, Some ''clip.mp4''),
       Remove_retry_file (Some ''clip.mp4''),
       Streamfunc ?c (backend ''ffmpeg'') (RD_SUCCESS, Some ''clip.mp4'')], ?v3)"
    by (rule locked [THEN conjunct2, THEN conjunct2, THEN conjunct1, THEN mp])
      (simp add: flaky_transfer_def backend_def needs_retry_download_def world_defs
        locked_world_def)
  have "remove_retry_file (Some ''clip.mp4'') ?p =
      (logger DEBUG ''Removing the partially downloaded file'' ?p)\<lparr>files := files ?p - {''clip.mp4''}\<rparr>"
    by (rule free [THEN conjunct2, THEN conjunct2, THEN conjunct2, THEN conjunct1, THEN mp]) simp
  then have removed: "remove_retry_file (Some ''clip.mp4'') ?p =
     \<lparr>files = {}, others = {}, protected = {},
      logged = [(DEBUG, ''Removing the partially downloaded file'')]\<rparr>"
    by (simp add: logger_def)
  have "remove_retry_file (Some ''clip.mp4'') ?q =
      logger WARNING ''Failed to remove a partial output file''
        (logger DEBUG ''Removing the partially downloaded file'' ?q)"
    by (rule locked [THEN conjunct2, THEN conjunct2, THEN conjunct2, THEN conjunct2, THEN mp]) simp
  then have kept: "remove_retry_file (Some ''clip.mp4'') ?q =
     \<lparr>files = {''clip.mp4''}, others = {}, protected = {''clip.mp4''},
      logged = [(DEBUG, ''Removing the partially downloaded file''),
                (WARNING, ''Failed to remove a partial output file'')]\<rparr>"
    by (simp add: logger_def)
  have concrete: "attempt_run flaky_transfer needs_retry_download ?c (filter is_valid ?strs)
       None empty_world
     [Attempt (backend ''wget'')
        \<lparr>files = {}, others = {}, protected = {},
         logged = [(DEBUG, ''Now trying downloader wget'')]\<rparr>
        (RD_FAILED, Some ''clip.mp4'')
        \<lparr>files = {''clip.mp4''}, others = {}, protected = {},
         logged = [(DEBUG, ''Now trying downloader wget'')]\<rparr>,
      Attempt (backend ''rtmpdump'')
        \<lparr>files = {}, others = {}, protected = {},
         logged = [(DEBUG, ''Now trying downloader wget''),
                   (DEBUG, ''Removing the partially downloaded file''),
                   (DEBUG, ''Now trying downloader rtmpdump'')]\<rparr>
        (RD_FAILED, Some ''clip.mp4'')
        \<lparr>files = {''clip.mp4''}, others = {}, protected = {},
         logged = [(DEBUG, ''Now trying downloader wget''),
                   (DEBUG, ''Removing the partially downloaded file''),
                   (DEBUG, ''Now trying downloader rtmpdump'')]\<rparr>,
      Attempt (backend ''ffmpeg'')
        \<lparr>files = {}, others = {}, protected = {},
         logged = [(DEBUG, ''Now trying downloader wget''),
                   (DEBUG, ''Removing the partially downloaded file''),
                   (DEBUG, ''Now trying downloader rtmpdump''),
                   (DEBUG, ''Removing the partially downloaded file''),
                   (DEBUG, ''Now trying downloader ffmpeg'')]\<rparr>
        (RD_SUCCESS, Some ''clip.mp4'')
        \<lparr>files = {''clip.mp4''}, others = {}, protected = {},
         logged = [(DEBUG, ''Now trying downloader wget''),
                   (DEBUG, ''Removing the partially downloaded file''),
                   (DEBUG, ''Now trying downloader rtmpdump''),
                   (DEBUG, ''Removing the partially downloaded file''),
                   (DEBUG, ''Now trying downloader ffmpeg'')]\<rparr>]"
    by (simp add: flaky_transfer_def backend_def needs_retry_download_def world_defs)
  from free [THEN conjunct2, THEN conjunct1, THEN mp, OF run]
  have exists: "\<exists>run. attempt_run flaky_transfer needs_retry_download ?c (filter is_valid ?strs)
            None empty_world run \<and>
          [Streamfunc ?c (backend ''wget'') (RD_FAILED, Some ''clip.mp4''),
           Remove_retry_file (Some ''clip.mp4''),
           Streamfunc ?c (backend ''rtmpdump'') (RD_FAILED, Some ''clip.mp4''),
           Remove_retry_file (Some ''clip.mp4''),
           Streamfunc ?c (backend ''ffmpeg'') (RD_SUCCESS, Some ''clip.mp4'')] =
            run_calls ?c None run"
    by (elim exE conjE, intro exI conjI)
  from run ordered run' removed kept concrete exists show ?thesis by (intro conjI)
qed

section \<open>Properties of the playlist processing\<close>







lemma process_single:
  "process co [u] sf nr filters w =
     (case process_clip co sf nr filters u RD_SUCCESS w of
        (outcome, calls, w1) \<Rightarrow> (to_external_rd_code co outcome, calls, w1))"
  by (simp add: process_def split: prod.splits)

lemma try_all_loop_item_calls:
  "try_all_loop sf nr clip strs latest out w = (res, calls, w') \<Longrightarrow>
     list_all (item_call clip) calls"
proof (induction strs arbitrary: latest out w res calls w')
  case Nil
  then show ?case by simp
next
  case (Cons s strs)
  show ?case
  proof (cases "is_valid s")
    case False
    with Cons.prems Cons.IH show ?thesis by simp
  next
    case True
    with Cons.prems Cons.IH show ?thesis
      by (fastforce simp: Let_def split: prod.splits if_splits)
  qed
qed

lemma process_clip_calls:
  assumes "extract_clip co u w = (clip, w1)"
  shows "\<exists>tried. fst (snd (process_clip co sf nr filters u overall w)) = Extract_clip u # tried \<and>
           list_all (item_call clip) tried"
proof -
  have "list_all (item_call clip) calls"
    if "try_all_streams sf clip strs nr w1 = (res, calls, w2)" for strs res calls w2
    using that unfolding try_all_streams_def by (rule try_all_loop_item_calls)
  then show ?thesis
    using assms
    by (auto simp: process_clip_def Let_def split: prod.splits option.splits list.splits)
qed

lemma print_geo_warning_get_playlist:
  "print_geo_warning (co\<lparr>get_playlist := g\<rparr>) = print_geo_warning co"
  by (rule ext)+ (simp add: print_geo_warning_def)

lemma process_clip_get_playlist:
  "process_clip (co\<lparr>get_playlist := g\<rparr>) sf nr filters u overall w =
     process_clip co sf nr filters u overall w"
  unfolding process_clip_def print_geo_warning_get_playlist by simp

lemma pipe_clip_get_playlist: "pipe_clip (co\<lparr>get_playlist := g\<rparr>) io = pipe_clip co io"
  by (rule ext)+ (simp add: pipe_clip_def)

lemmas collaborator_defs = test_collaborators_def areena_clip_def test_clip_def IOContext_def

lemmas process_defs = process_def process_clip_def select_streams_def print_geo_warning_def
  download_def generate_output_name_def should_skip_downloading_def log_output_file_def
  postprocess_def pipe_clip_def needs_retry_pipe_def




text \<open>
  C8. When the playlist has more than one entry and a fixed output file name was given,
  or the output template is a literal, \<open>download_clips\<close> returns \<open>RD_FAILED\<close> having
  made no call for any item: the world is the one \<open>get_playlist\<close> left, with one error
  line logged. With at most one entry, or with neither condition, it is \<open>process\<close> run on
  the playlist.
\<close>

theorem download_clips_guard:
  assumes gp: "get_playlist co base_url (Some (latest_only filters)) w = (playlist, w1)"
  shows "(length playlist > 1 \<and> outputfilename io \<noteq> None \<longrightarrow>
            download_clips co base_url io filters w =
              (RD_FAILED, [],
               logger ERROR (''The source is a playlist with multiple clips, '' @
                             ''but only one output file specified'') w1)) \<and>
         (length playlist > 1 \<and> outputfilename io = None \<and> is_constant_pattern co \<longrightarrow>
            download_clips co base_url io filters w =
              (RD_FAILED, [],
               logger ERROR (''The source is a playlist with multiple clips, '' @
                             ''but --output-template is a literal: '' @ template co) w1)) \<and>
         (length playlist \<le> 1 \<or> (outputfilename io = None \<and> \<not> is_constant_pattern co) \<longrightarrow>
            download_clips co base_url io filters w =
              process co playlist (download co io) needs_retry_download filters w1)"
  using gp by (auto simp: download_clips_def)

theorem download_clips_guard_witness:
  "get_playlist (test_collaborators [''1-1'', ''1-2'', ''1-3''] False) ''series''
       (Some (latest_only (StreamFilters None None))) empty_world =
     ([''1-1'', ''1-2'', ''1-3''], empty_world) \<and>
   download_clips (test_collaborators [''1-1'', ''1-2'', ''1-3''] False) ''series''
       (IOContext (Some ''out.mp4'')) (StreamFilters None None) empty_world =
     (RD_FAILED, [],
      logger ERROR (''The source is a playlist with multiple clips, '' @
                    ''but only one output file specified'') empty_world) \<and>
   download_clips (test_collaborators [''1-1'', ''1-2'', ''1-3''] True) ''series''
       (IOContext None) (StreamFilters None None) empty_world =
     (RD_FAILED, [],
      logger ERROR (''The source is a playlist with multiple clips, '' @
                    ''but --output-template is a literal: '' @ ''${title}'') empty_world) \<and>
   download_clips (test_collaborators [''1-1''] True) ''series''
       (IOContext (Some ''out.mp4'')) (StreamFilters None None) empty_world =
     process (test_collaborators [''1-1''] True) [''1-1'']
       (download (test_collaborators [''1-1''] True) (IOContext (Some ''out.mp4'')))
       needs_retry_download (StreamFilters None None) empty_world \<and>
   download_clips (test_collaborators [''1-1'', ''1-2'', ''1-3''] False) ''series''
       (IOContext None) (StreamFilters None None) empty_world =
     process (test_collaborators [''1-1'', ''1-2'', ''1-3''] False) [''1-1'', ''1-2'', ''1-3'']
       (download (test_collaborators [''1-1'', ''1-2'', ''1-3''] False) (IOContext None))
       needs_retry_download (StreamFilters None None) empty_world"
proof -
  let ?F = "StreamFilters None None"
  let ?three = "[''1-1'', ''1-2'', ''1-3'']"
  have gp: "get_playlist (test_collaborators pl lit) ''series'' (Some (latest_only ?F)) empty_world =
      (pl, empty_world)" for pl lit
    by (simp add: test_collaborators_def)
  have a: "download_clips (test_collaborators ?three False) ''series''
       (IOContext (Some ''out.mp4'')) ?F empty_world =
     (RD_FAILED, [],
      logger ERROR (''The source is a playlist with multiple clips, '' @
                    ''but only one output file specified'') empty_world)"
    by (rule download_clips_guard [OF gp, THEN conjunct1, THEN mp]) (simp add: IOContext_def)
  have "download_clips (test_collaborators ?three True) ''series'' (IOContext None) ?F empty_world =
     (RD_FAILED, [],
      logger ERROR (''The source is a playlist with multiple clips, '' @
                    ''but --output-template is a literal: '' @
                    template (test_collaborators ?three True)) empty_world)"
    by (rule download_clips_guard [OF gp, THEN conjunct2, THEN conjunct1, THEN mp])
      (simp add: IOContext_def test_collaborators_def)
  then have b: "download_clips (test_collaborators ?three True) ''series'' (IOContext None) ?F empty_world =
     (RD_FAILED, [],
      logger ERROR (''The source is a playlist with multiple clips, '' @
                    ''but --output-template is a literal: '' @ ''${title}'') empty_world)"
    by (simp add: test_collaborators_def)
  have c: "download_clips (test_collaborators [''1-1''] True) ''series''
       (IOContext (Some ''out.mp4'')) ?F empty_world =
     process (test_collaborators [''1-1''] True) [''1-1'']
       (download (test_collaborators [''1-1''] True) (IOContext (Some ''out.mp4'')))
       needs_retry_download ?F empty_world"
    by (rule download_clips_guard [OF gp, THEN conjunct2, THEN conjunct2, THEN mp])
      simp
  have d: "download_clips (test_collaborators ?three False) ''series'' (IOContext None) ?F empty_world =
     process (test_collaborators ?three False) ?three
       (download (test_collaborators ?three False) (IOContext None))
       needs_retry_download ?F empty_world"
    by (rule download_clips_guard [OF gp, THEN conjunct2, THEN conjunct2, THEN mp])
      (simp add: IOContext_def test_collaborators_def)
  from gp [of ?three False] a b c d show ?thesis by (intro conjI)
qed

text \<open>
  C10. For a playlist with a first entry, \<open>pipe\<close> is \<open>process\<close> run on the first entry
  alone: its result is the external code of the outcome of that entry, its calls are
  the extraction of that entry followed by transfers of that clip and removals, and
  nothing changes when the entries after the first are replaced by others.
\<close>

theorem pipe_first_clip_only:
  assumes gp: "get_playlist co base_url None w = (first # later, w1)"
  shows "pipe co base_url io filters w =
           process co [first] (pipe_clip co io) needs_retry_pipe filters w1 \<and>
         pipe co base_url io filters w =
           (case process_clip co (pipe_clip co io) needs_retry_pipe filters first RD_SUCCESS w1 of
              (outcome, calls, w2) \<Rightarrow> (to_external_rd_code co outcome, calls, w2)) \<and>
         (\<exists>tried. fst (snd (pipe co base_url io filters w)) = Extract_clip first # tried \<and>
                  list_all (item_call (fst (extract_clip co first w1))) tried) \<and>
         pipe (co\<lparr>get_playlist := (\<lambda>b l v. (first # later', w1))\<rparr>) base_url io filters w =
           pipe co base_url io filters w"
proof (intro conjI)
  show one: "pipe co base_url io filters w =
      process co [first] (pipe_clip co io) needs_retry_pipe filters w1"
    using gp by (simp add: pipe_def)
  show step: "pipe co base_url io filters w =
      (case process_clip co (pipe_clip co io) needs_retry_pipe filters first RD_SUCCESS w1 of
         (outcome, calls, w2) \<Rightarrow> (to_external_rd_code co outcome, calls, w2))"
    unfolding one by (rule process_single)
  obtain clip w2 where ex: "extract_clip co first w1 = (clip, w2)"
    by (metis surj_pair)
  from process_clip_calls [OF ex, of "pipe_clip co io" needs_retry_pipe filters RD_SUCCESS]
  show "\<exists>tried. fst (snd (pipe co base_url io filters w)) = Extract_clip first # tried \<and>
                  list_all (item_call (fst (extract_clip co first w1))) tried"
    unfolding step ex by (auto split: prod.splits)
  have "pipe (co\<lparr>get_playlist := (\<lambda>b l v. (first # later', w1))\<rparr>) base_url io filters w =
      (case process_clip co (pipe_clip co io) needs_retry_pipe filters first RD_SUCCESS w1 of
         (outcome, calls, w2) \<Rightarrow> (to_external_rd_code co outcome, calls, w2))"
    by (simp add: pipe_def process_single process_clip_get_playlist pipe_clip_get_playlist)
  then show "pipe (co\<lparr>get_playlist := (\<lambda>b l v. (first # later', w1))\<rparr>) base_url io filters w =
           pipe co base_url io filters w"
    by (simp only: step)
qed

theorem pipe_first_clip_only_witness:
  "get_playlist (test_collaborators [''1-1'', ''1-2'', ''1-3''] False) ''series'' None empty_world =
     (''1-1'' # [''1-2'', ''1-3''], empty_world) \<and>
   pipe (test_collaborators [''1-1'', ''1-2'', ''1-3''] False) ''series'' (IOContext None)
       (StreamFilters None None) empty_world =
     process (test_collaborators [''1-1'', ''1-2'', ''1-3''] False) [''1-1'']
       (pipe_clip (test_collaborators [''1-1'', ''1-2'', ''1-3''] False) (IOContext None))
       needs_retry_pipe (StreamFilters None None) empty_world \<and>
   pipe (test_collaborators [''1-1'', ''1-2'', ''1-3''] False) ''series'' (IOContext None)
       (StreamFilters None None) empty_world =
     (RD_SUCCESS,
      [Extract_clip ''1-1'',
       Streamfunc (areena_clip ''1-1'') mock_stream (RD_SUCCESS, None)],
      logger DEBUG ''Now trying downloader ffmpeg'' empty_world)"
proof -
  let ?co = "test_collaborators [''1-1'', ''1-2'', ''1-3''] False"
  let ?F = "StreamFilters None None"
  have gp: "get_playlist ?co ''series'' None empty_world = (''1-1'' # [''1-2'', ''1-3''], empty_world)"
    by (simp add: test_collaborators_def)
  note first = pipe_first_clip_only [OF gp, of "IOContext None" ?F]
  have one: "pipe ?co ''series'' (IOContext None) ?F empty_world =
      process ?co [''1-1''] (pipe_clip ?co (IOContext None)) needs_retry_pipe ?F empty_world"
    by (rule first [THEN conjunct1])
  have "process ?co [''1-1''] (pipe_clip ?co (IOContext None)) needs_retry_pipe ?F empty_world =
     (RD_SUCCESS,
      [Extract_clip ''1-1'', Streamfunc (areena_clip ''1-1'') mock_stream (RD_SUCCESS, None)],
      logger DEBUG ''Now trying downloader ffmpeg'' empty_world)"
    by (simp add: collaborator_defs process_defs retry_defs world_defs selection_defs example_defs)
  with one have res: "pipe ?co ''series'' (IOContext None) ?F empty_world =
     (RD_SUCCESS,
      [Extract_clip ''1-1'', Streamfunc (areena_clip ''1-1'') mock_stream (RD_SUCCESS, None)],
      logger DEBUG ''Now trying downloader ffmpeg'' empty_world)"
    by simp
  from gp one res show ?thesis by (intro conjI)
qed

end
